theory Spec2Isabelle
  imports Main "HOL-Library.Sublist"
begin

section \<open>JavaScript values and strings\<close>

text \<open>
  The numbers modelled are the integers below \<^verbatim>\<open>1e21\<close> in magnitude (ports, counts):
  the range in which \<^verbatim>\<open>String(n)\<close> is the decimal numeral of \<^verbatim>\<open>n\<close>. From
  \<^verbatim>\<open>1e21\<close> on \<^verbatim>\<open>String\<close> answers in exponent notation, and no such number is a
  value here.
\<close>

typedef js_integer = "{i :: int. \<bar>i\<bar> < 10 ^ 21}"
  by (rule exI [of _ 0]) simp

setup_lifting type_definition_js_integer

lift_definition js_integer :: "int \<Rightarrow> js_integer" is
  "\<lambda>i. if \<bar>i\<bar> < 10 ^ 21 then i else 0"
  by simp

lift_definition integer_value :: "js_integer \<Rightarrow> int" is "\<lambda>i. i" .

text \<open>
  The values of JSON, as \<^verbatim>\<open>JSON.parse\<close> produces them and \<^verbatim>\<open>yaml.load\<close> does for
  the documents read here, plus \<^verbatim>\<open>undefined\<close> for a missing property. An object is
  the list of its own enumerable properties in the order \<^verbatim>\<open>Object.keys\<close> lists them.
\<close>

datatype js =
    JUndefined
  | JNull
  | JBool bool
  | JNum js_integer
  | JStr string
  | JArr "js list"
  | JObj "(string \<times> js) list"

abbreviation nl :: string where "nl \<equiv> [CHR 0x0A]"
abbreviation dq :: string where "dq \<equiv> [CHR 0x22]"
abbreviation bt :: string where "bt \<equiv> [CHR 0x60]"

text \<open>\<^verbatim>\<open>s.split('\n')\<close>: never the empty list, \<^verbatim>\<open>''.split('\n')\<close> is \<^verbatim>\<open>['']\<close>.\<close>

fun split_nl :: "string \<Rightarrow> string list" where
  "split_nl [] = [[]]"
| "split_nl (c # cs) =
     (if c = CHR 0x0A then [] # split_nl cs
      else (case split_nl cs of
              [] \<Rightarrow> [[c]]
            | l # ls \<Rightarrow> (c # l) # ls))"

text \<open>\<^verbatim>\<open>xs.join(sep)\<close> on an array of strings.\<close>

fun join :: "string \<Rightarrow> string list \<Rightarrow> string" where
  "join sep [] = []"
| "join sep [x] = x"
| "join sep (x # y # ys) = x @ sep @ join sep (y # ys)"

text \<open>Truthiness of an optional string: \<^verbatim>\<open>undefined\<close> and \<^verbatim>\<open>''\<close> are falsy.\<close>

fun truthy_str :: "string option \<Rightarrow> bool" where
  "truthy_str None = False"
| "truthy_str (Some s) = (s \<noteq> [])"

datatype error = Error string

section \<open>tools/skill-mcp.ts\<close>

datatype operation_type = Tool | Resource | Prompt

record OperationInfo =
  op_type :: operation_type
  op_name :: string

text \<open>The arguments object of the \<^verbatim>\<open>skill_mcp\<close> tool, as its schema declares it.\<close>

record skill_mcp_args =
  mcp_name :: string
  tool_name :: "string option"
  resource_name :: "string option"
  prompt_name :: "string option"
  arguments :: "string option"
  grep :: "string option"

definition missing_operation_message :: string where
  "missing_operation_message =
     ''Missing operation. Exactly one of tool_name, resource_name, or prompt_name must be specified.'' @ nl @ nl @
     ''Examples:'' @ nl @
     ''  skill_mcp(mcp_name='' @ dq @ ''sqlite'' @ dq @ '', tool_name='' @ dq @ ''query'' @ dq @
       '', arguments='{'' @ dq @ ''sql'' @ dq @ '': '' @ dq @ ''SELECT * FROM users'' @ dq @ ''}')'' @ nl @
     ''  skill_mcp(mcp_name='' @ dq @ ''memory'' @ dq @ '', resource_name='' @ dq @ ''memory://notes'' @ dq @ '')'' @ nl @
     ''  skill_mcp(mcp_name='' @ dq @ ''helper'' @ dq @ '', prompt_name='' @ dq @ ''summarize'' @ dq @
       '', arguments='{'' @ dq @ ''text'' @ dq @ '': '' @ dq @ ''...'' @ dq @ ''}')''"

text \<open>
  The \<^verbatim>\<open>provided\<close> list of the multiple-operations branch: each
  \<^verbatim>\<open>args.x && `x="${args.x}"`\<close> is kept by \<^verbatim>\<open>filter(Boolean)\<close> exactly when
  \<^verbatim>\<open>args.x\<close> is truthy.
\<close>

definition provided_item :: "string \<Rightarrow> string option \<Rightarrow> string list" where
  "provided_item label v =
     (case v of
        None \<Rightarrow> []
      | Some s \<Rightarrow> if s = [] then [] else [label @ ''='' @ dq @ s @ dq])"

definition provided :: "skill_mcp_args \<Rightarrow> string" where
  "provided args =
     join '', ''
       (provided_item ''tool_name'' (tool_name args) @
        provided_item ''resource_name'' (resource_name args) @
        provided_item ''prompt_name'' (prompt_name args))"

definition multiple_operations_message :: "skill_mcp_args \<Rightarrow> string" where
  "multiple_operations_message args =
     ''Multiple operations specified. Exactly one of tool_name, resource_name, or prompt_name must be provided.'' @ nl @ nl @
     ''Received: '' @ provided args @ nl @ nl @
     ''Use separate calls for each operation.''"

text \<open>One \<^verbatim>\<open>if (args.x) operations.push({ type, name: args.x })\<close>.\<close>

definition push_operation :: "operation_type \<Rightarrow> string option \<Rightarrow> OperationInfo list" where
  "push_operation t v =
     (case v of
        None \<Rightarrow> []
      | Some s \<Rightarrow> if s = [] then [] else [\<lparr>op_type = t, op_name = s\<rparr>])"

definition validateOperationParams :: "skill_mcp_args \<Rightarrow> error + OperationInfo" where
  "validateOperationParams args =
     (let operations =
            push_operation Tool (tool_name args) @
            push_operation Resource (resource_name args) @
            push_operation Prompt (prompt_name args)
      in if length operations = 0 then Inl (Error missing_operation_message)
         else if length operations > 1 then Inl (Error (multiple_operations_message args))
         else (case operations of
                 [] \<Rightarrow> Inl (Error missing_operation_message)
               | operation # _ \<Rightarrow> Inr operation))"

text \<open>
  \<^verbatim>\<open>new RegExp(pattern, flags)\<close> is a parameter: \<open>None\<close> when the constructor throws
  its SyntaxError, otherwise the predicate \<^verbatim>\<open>regex.test\<close> (the flags carry no
  \<^verbatim>\<open>g\<close> or \<^verbatim>\<open>y\<close>, so \<^verbatim>\<open>test\<close> keeps no state between lines).
\<close>

type_synonym regexp = "string \<Rightarrow> string \<Rightarrow> (string \<Rightarrow> bool) option"

definition no_lines_matched :: "string \<Rightarrow> string" where
  "no_lines_matched pattern = ''[grep] No lines matched pattern: '' @ pattern"

definition applyGrepFilter :: "regexp \<Rightarrow> string \<Rightarrow> string option \<Rightarrow> string" where
  "applyGrepFilter RegExp output pattern =
     (case pattern of
        None \<Rightarrow> output
      | Some p \<Rightarrow>
          if p = [] then output
          else (case RegExp p ''i'' of
                  None \<Rightarrow> output
                | Some test \<Rightarrow>
                    (let lines = split_nl output;
                         filtered = filter test lines
                     in if length filtered > 0 then join nl filtered
                        else no_lines_matched p)))"

text \<open>
  \<^verbatim>\<open>String(n)\<close> for an integer-valued number is its decimal numeral.
\<close>

fun show_nat :: "nat \<Rightarrow> string" where
  "show_nat n =
     (if n < 10 then [char_of (48 + n)]
      else show_nat (n div 10) @ [char_of (48 + n mod 10)])"

declare show_nat.simps [simp del]

definition show_int :: "int \<Rightarrow> string" where
  "show_int i = (if i < 0 then ''-'' @ show_nat (nat (- i)) else show_nat (nat i))"

text \<open>
  What \<^verbatim>\<open>String(v)\<close> (and \<^verbatim>\<open>`${v}`\<close>) returns when it returns: an array joins its
  elements with a comma, \<^verbatim>\<open>null\<close> and \<^verbatim>\<open>undefined\<close> elements as the empty string; a
  plain object is \<^verbatim>\<open>[object Object]\<close>.
\<close>

fun nullish :: "js \<Rightarrow> bool" where
  "nullish JUndefined = True"
| "nullish JNull = True"
| "nullish v = False"

fun js_String :: "js \<Rightarrow> string" where
  "js_String JUndefined = ''undefined''"
| "js_String JNull = ''null''"
| "js_String (JBool b) = (if b then ''true'' else ''false'')"
| "js_String (JNum n) = show_int (integer_value n)"
| "js_String (JStr s) = s"
| "js_String (JArr xs) =
     join '','' (map (\<lambda>x. if nullish x then [] else js_String x) xs)"
| "js_String (JObj kvs) = ''[object Object]''"

text \<open>
  When \<^verbatim>\<open>String(v)\<close> throws its TypeError instead. The coercion of an object calls its
  \<^verbatim>\<open>toString\<close>, then its \<^verbatim>\<open>valueOf\<close>, skipping a member that is not callable and
  refusing a result that is an object. An own \<^verbatim>\<open>toString\<close> property of a parsed object
  is a value, never a function, and hides the inherited method; \<^verbatim>\<open>valueOf\<close>, own or
  inherited, then gives no primitive. So the coercion throws exactly for an object with an
  own \<^verbatim>\<open>toString\<close> key, and for an array one of whose elements (other than
  \<^verbatim>\<open>null\<close> and \<^verbatim>\<open>undefined\<close>) it throws for.
\<close>

fun String_throws :: "js \<Rightarrow> bool" where
  "String_throws (JObj kvs) = (''toString'' \<in> set (map fst kvs))"
| "String_throws (JArr xs) =
     list_ex (\<lambda>x. \<not> nullish x \<and> String_throws x) xs"
| "String_throws v = False"

definition js_ToString :: "js \<Rightarrow> error + string" where
  "js_ToString v =
     (if String_throws v then Inl (Error ''Cannot convert object to primitive value'')
      else Inr (js_String v))"

fun typeof :: "js \<Rightarrow> string" where
  "typeof JUndefined = ''undefined''"
| "typeof JNull = ''object''"
| "typeof (JBool b) = ''boolean''"
| "typeof (JNum n) = ''number''"
| "typeof (JStr s) = ''string''"
| "typeof (JArr xs) = ''object''"
| "typeof (JObj kvs) = ''object''"

text \<open>
  The property names every plain object inherits from \<^verbatim>\<open>Object.prototype\<close>. The
  \<^verbatim>\<open>in\<close> operator looks through the prototype chain, so \<^verbatim>\<open>k in obj\<close> holds for
  the object's own keys and for these names.
\<close>

definition Object_prototype_keys :: "string list" where
  "Object_prototype_keys =
     [''constructor'', ''__defineGetter__'', ''__defineSetter__'', ''hasOwnProperty'',
      ''__lookupGetter__'', ''__lookupSetter__'', ''isPrototypeOf'', ''propertyIsEnumerable'',
      ''toString'', ''valueOf'', ''__proto__'', ''toLocaleString'']"

definition js_in :: "string \<Rightarrow> (string \<times> 'v) list \<Rightarrow> bool" where
  "js_in k obj = (k \<in> set (map fst obj) \<or> k \<in> set Object_prototype_keys)"

text \<open>
  What \<^verbatim>\<open>obj[k]\<close> reads: the own property, else the member inherited from
  \<^verbatim>\<open>Object.prototype\<close> (a function or accessor, never a server configuration), else
  \<^verbatim>\<open>undefined\<close>.
\<close>

datatype property_value = OwnValue js | InheritedMember string | NoProperty

definition js_get :: "(string \<times> js) list \<Rightarrow> string \<Rightarrow> property_value" where
  "js_get obj k =
     (case map_of obj k of
        Some v \<Rightarrow> OwnValue v
      | None \<Rightarrow> if k \<in> set Object_prototype_keys then InheritedMember k else NoProperty)"

text \<open>
  The fields of \<^verbatim>\<open>LoadedSkill\<close> that the tools read here; \<^verbatim>\<open>mcpConfig\<close> is
  \<^verbatim>\<open>Record<string, McpServerConfig> | undefined\<close>.
\<close>

record LoadedSkill =
  name :: string
  mcpConfig :: "(string \<times> js) list option"

record found_server =
  found_skill :: LoadedSkill
  found_config :: property_value

fun findMcpServer :: "string \<Rightarrow> LoadedSkill list \<Rightarrow> found_server option" where
  "findMcpServer mcpName [] = None"
| "findMcpServer mcpName (skill # skills) =
     (case mcpConfig skill of
        None \<Rightarrow> findMcpServer mcpName skills
      | Some cfg \<Rightarrow>
          if js_in mcpName cfg
          then Some \<lparr>found_skill = skill, found_config = js_get cfg mcpName\<rparr>
          else findMcpServer mcpName skills)"

definition available_line :: "string \<Rightarrow> string \<Rightarrow> string" where
  "available_line serverName skillName =
     ''  - '' @ dq @ serverName @ dq @ '' from skill '' @ dq @ skillName @ dq"

definition skill_lines :: "LoadedSkill \<Rightarrow> string list" where
  "skill_lines skill =
     (case mcpConfig skill of
        None \<Rightarrow> []
      | Some cfg \<Rightarrow> map (\<lambda>serverName. available_line serverName (name skill)) (map fst cfg))"

definition formatAvailableMcps :: "LoadedSkill list \<Rightarrow> string" where
  "formatAvailableMcps skills =
     (let mcps = concat (map skill_lines skills)
      in if length mcps > 0 then join nl mcps else ''  (none found)'')"

definition invalid_arguments_message :: "string \<Rightarrow> string \<Rightarrow> string" where
  "invalid_arguments_message errorMessage argsJson =
     ''Invalid arguments JSON: '' @ errorMessage @ nl @ nl @
     ''Expected a valid JSON object, e.g.: '{'' @ dq @ ''key'' @ dq @ '': '' @ dq @ ''value'' @ dq @ ''}'' @ [CHR 0x27] @ nl @
     ''Received: '' @ argsJson"

text \<open>
  \<^verbatim>\<open>JSON.parse\<close> is a parameter: \<open>Inl\<close> the message of the SyntaxError it throws,
  \<open>Inr\<close> the parsed value.
\<close>

definition parseArguments :: "(string \<Rightarrow> string + js) \<Rightarrow> string option \<Rightarrow> error + js" where
  "parseArguments JSON_parse argsJson =
     (case argsJson of
        None \<Rightarrow> Inr (JObj [])
      | Some a \<Rightarrow>
          if a = [] then Inr (JObj [])
          else (case JSON_parse a of
                  Inl errorMessage \<Rightarrow> Inl (Error (invalid_arguments_message errorMessage a))
                | Inr parsed \<Rightarrow>
                    if typeof parsed \<noteq> ''object'' \<or> parsed = JNull
                    then Inl (Error (invalid_arguments_message ''Arguments must be a JSON object'' a))
                    else Inr parsed))"

text \<open>
  The Manager is the object of \<^verbatim>\<open>skill-mcp-manager.js\<close>, taken as given. An
  invocation answers \<open>Inl\<close> the error it fails with or \<open>Inr\<close> its result. A
  discovery call is used as \<^verbatim>\<open>manager.listTools(info, context).catch(() => [])\<close>, where
  a throw of the call itself and a rejection of the promise it returns are not the same:
  \<open>Throws\<close>, \<open>Rejects\<close>, or \<open>Resolves\<close> with the list.
  \<^verbatim>\<open>disconnectSession\<close> answers the error it rejects with, if any.
\<close>

datatype client_info =
  ClientInfo (info_serverName: string) (info_skillName: string) (info_sessionID: string)

datatype client_context =
  ClientContext (context_config: property_value) (context_skillName: string)

datatype McpTool =
  McpTool (mcptool_name: string) (description: "string option") (inputSchema: js)

datatype McpResource = McpResource (uri: string)

datatype McpPrompt = McpPrompt (mcpprompt_name: string)

datatype 'a discovery = Throws error | Rejects error | Resolves "'a list"

datatype effect =
    GetLoadedSkills
  | GetSessionID
  | CallTool client_info client_context string js
  | ReadResource client_info client_context string
  | GetPrompt client_info client_context string "(string \<times> string) list"

record SkillMcpManager =
  listTools :: "client_info \<Rightarrow> client_context \<Rightarrow> McpTool discovery"
  listResources :: "client_info \<Rightarrow> client_context \<Rightarrow> McpResource discovery"
  listPrompts :: "client_info \<Rightarrow> client_context \<Rightarrow> McpPrompt discovery"
  callTool :: "client_info \<Rightarrow> client_context \<Rightarrow> string \<Rightarrow> js \<Rightarrow> error + js"
  readResource :: "client_info \<Rightarrow> client_context \<Rightarrow> string \<Rightarrow> error + js"
  getPrompt :: "client_info \<Rightarrow> client_context \<Rightarrow> string \<Rightarrow> (string \<times> string) list \<Rightarrow> error + js"
  disconnectSession :: "string option \<Rightarrow> error option"

text \<open>
  The built-ins the tools call: \<^verbatim>\<open>new RegExp(pattern, flags)\<close>, \<^verbatim>\<open>JSON.parse(text)\<close>
  and \<^verbatim>\<open>JSON.stringify(value, null, 2)\<close>.
\<close>

record js_library =
  lib_RegExp :: regexp
  lib_JSON_parse :: "string \<Rightarrow> string + js"
  lib_JSON_stringify :: "js \<Rightarrow> string"

text \<open>
  \<^verbatim>\<open>Object.entries(parsedArgs)\<close>; \<^verbatim>\<open>parseArguments\<close> lets only objects and arrays
  through.
\<close>

fun js_entries :: "js \<Rightarrow> (string \<times> js) list" where
  "js_entries (JObj kvs) = kvs"
| "js_entries (JArr xs) = zip (map show_nat [0..<length xs]) xs"
| "js_entries v = []"

text \<open>
  The loop \<^verbatim>\<open>stringArgs[key] = String(value)\<close> over the entries, in order: a coercion
  that throws ends the loop (and the call) with its error; assigning to \<^verbatim>\<open>__proto__\<close>
  with a string creates no property.
\<close>

fun coerce_entries :: "(string \<times> js) list \<Rightarrow> error + (string \<times> string) list" where
  "coerce_entries [] = Inr []"
| "coerce_entries ((key, v) # entries) =
     (case js_ToString v of
        Inl e \<Rightarrow> Inl e
      | Inr s \<Rightarrow>
          (case coerce_entries entries of
             Inl e \<Rightarrow> Inl e
           | Inr later \<Rightarrow> Inr (if key = ''__proto__'' then later else (key, s) # later)))"

definition stringArgs :: "js \<Rightarrow> error + (string \<times> string) list" where
  "stringArgs parsedArgs = coerce_entries (js_entries parsedArgs)"

text \<open>
  The \<^verbatim>\<open>switch (operation.type)\<close>: what the case answers and the Manager call it made,
  if it got that far.
\<close>

definition invoke_operation ::
  "SkillMcpManager \<Rightarrow> client_info \<Rightarrow> client_context \<Rightarrow> OperationInfo \<Rightarrow> js
     \<Rightarrow> (error + js) \<times> effect list"
where
  "invoke_operation manager info ctx operation parsedArgs =
     (case op_type operation of
        Tool \<Rightarrow>
          (callTool manager info ctx (op_name operation) parsedArgs,
           [CallTool info ctx (op_name operation) parsedArgs])
      | Resource \<Rightarrow>
          (readResource manager info ctx (op_name operation),
           [ReadResource info ctx (op_name operation)])
      | Prompt \<Rightarrow>
          (case stringArgs parsedArgs of
             Inl e \<Rightarrow> (Inl e, [])
           | Inr given \<Rightarrow>
               (getPrompt manager info ctx (op_name operation) given,
                [GetPrompt info ctx (op_name operation) given])))"

definition not_found_message :: "string \<Rightarrow> LoadedSkill list \<Rightarrow> string" where
  "not_found_message mcpName skills =
     ''MCP server '' @ dq @ mcpName @ dq @ '' not found.'' @ nl @ nl @
     ''Available MCP servers in loaded skills:'' @ nl @
     formatAvailableMcps skills @ nl @ nl @
     ''Hint: Load the skill first using the 'skill' tool, then call skill_mcp.''"

text \<open>
  \<^verbatim>\<open>execute\<close> of the \<^verbatim>\<open>skill_mcp\<close> tool. \<open>loadedSkills\<close> is what
  \<^verbatim>\<open>getLoadedSkills()\<close> returns and \<open>currentSession\<close> what \<^verbatim>\<open>getSessionID()\<close>
  returns. The result is the returned string or the error thrown, with the calls made on
  the callbacks and on the Manager, in order.
\<close>

definition execute ::
  "js_library \<Rightarrow> SkillMcpManager \<Rightarrow> LoadedSkill list \<Rightarrow> string \<Rightarrow> skill_mcp_args
     \<Rightarrow> (error + string) \<times> effect list"
where
  "execute lib manager loadedSkills currentSession args =
     (case validateOperationParams args of
        Inl e \<Rightarrow> (Inl e, [])
      | Inr operation \<Rightarrow>
          (case findMcpServer (mcp_name args) loadedSkills of
             None \<Rightarrow>
               (Inl (Error (not_found_message (mcp_name args) loadedSkills)), [GetLoadedSkills])
           | Some found \<Rightarrow>
               (let info = ClientInfo (mcp_name args) (name (found_skill found)) currentSession;
                    ctx = ClientContext (found_config found) (name (found_skill found))
                in case parseArguments (lib_JSON_parse lib) (arguments args) of
                     Inl e \<Rightarrow> (Inl e, [GetLoadedSkills, GetSessionID])
                   | Inr parsedArgs \<Rightarrow>
                       (case invoke_operation manager info ctx operation parsedArgs of
                          (Inl e, calls) \<Rightarrow> (Inl e, [GetLoadedSkills, GetSessionID] @ calls)
                        | (Inr result, calls) \<Rightarrow>
                            (Inr (applyGrepFilter (lib_RegExp lib)
                                    (lib_JSON_stringify lib result) (grep args)),
                             [GetLoadedSkills, GetSessionID] @ calls)))))"

text \<open>The selectors that count as given: the truthy ones.\<close>

definition present_selectors :: "skill_mcp_args \<Rightarrow> string option list" where
  "present_selectors args =
     filter truthy_str [tool_name args, resource_name args, prompt_name args]"

section \<open>tools/skill.ts\<close>

text \<open>The lines pushed for one tool of a server.\<close>

definition stringify_schema :: "js_library \<Rightarrow> js \<Rightarrow> string" where
  "stringify_schema lib schema =
     (if schema = JUndefined then [] else lib_JSON_stringify lib schema)"

definition tool_lines :: "js_library \<Rightarrow> McpTool \<Rightarrow> string list" where
  "tool_lines lib t =
     [''#### '' @ bt @ mcptool_name t @ bt] @
     (case description t of
        None \<Rightarrow> []
      | Some d \<Rightarrow> if d = [] then [] else [d]) @
     ['''',
      ''**inputSchema:**'',
      bt @ bt @ bt @ ''json'',
      stringify_schema lib (inputSchema t),
      bt @ bt @ bt,
      '''']"

text \<open>What \<^verbatim>\<open>.catch(() => [])\<close> leaves of a discovery call that did not throw.\<close>

fun settled :: "'a discovery \<Rightarrow> 'a list" where
  "settled (Resolves xs) = xs"
| "settled (Rejects e) = []"
| "settled (Throws e) = []"

text \<open>
  The \<^verbatim>\<open>Promise.all([...])\<close> line: the three calls are made in order, and a call that
  throws ends the \<^verbatim>\<open>try\<close> block before the later ones are made.
\<close>

definition discover ::
  "SkillMcpManager \<Rightarrow> client_info \<Rightarrow> client_context
     \<Rightarrow> error + (McpTool list \<times> McpResource list \<times> McpPrompt list)"
where
  "discover manager info ctx =
     (case listTools manager info ctx of
        Throws e \<Rightarrow> Inl e
      | tools \<Rightarrow>
          (case listResources manager info ctx of
             Throws e \<Rightarrow> Inl e
           | resources \<Rightarrow>
               (case listPrompts manager info ctx of
                  Throws e \<Rightarrow> Inl e
                | prompts \<Rightarrow> Inr (settled tools, settled resources, settled prompts))))"

definition capability_lines ::
  "js_library \<Rightarrow> McpTool list \<Rightarrow> McpResource list \<Rightarrow> McpPrompt list \<Rightarrow> string list"
where
  "capability_lines lib tools resources prompts =
     (if length tools > 0
      then [''**Tools:**'', ''''] @ concat (map (tool_lines lib) tools) else []) @
     (if length resources > 0
      then [''**Resources**: '' @ join '', '' (map uri resources)] else []) @
     (if length prompts > 0
      then [''**Prompts**: '' @ join '', '' (map mcpprompt_name prompts)] else []) @
     (if length tools = 0 \<and> length resources = 0 \<and> length prompts = 0
      then [''*No capabilities discovered*''] else [])"

text \<open>\<^verbatim>\<open>errorMessage.split('\n')[0]\<close>.\<close>

definition first_line :: "string \<Rightarrow> string" where
  "first_line s = (case split_nl s of [] \<Rightarrow> [] | l # ls \<Rightarrow> l)"

definition failure_note :: "error \<Rightarrow> string" where
  "failure_note e = (case e of Error errorMessage \<Rightarrow>
     ''*Failed to connect: '' @ first_line errorMessage @ ''*'')"

definition usage_line :: "string \<Rightarrow> string" where
  "usage_line serverName =
     ''Use '' @ bt @ ''skill_mcp'' @ bt @ '' tool with '' @ bt @ ''mcp_name='' @ dq @
     serverName @ dq @ bt @ '' to invoke.''"

text \<open>The lines one iteration of the loop over \<^verbatim>\<open>Object.entries(skill.mcpConfig)\<close> pushes.\<close>

definition server_sections ::
  "js_library \<Rightarrow> SkillMcpManager \<Rightarrow> LoadedSkill \<Rightarrow> string \<Rightarrow> string \<times> js \<Rightarrow> string list"
where
  "server_sections lib manager skill session entry =
     (case entry of (serverName, cfg) \<Rightarrow>
        (let info = ClientInfo serverName (name skill) session;
             ctx = ClientContext (OwnValue cfg) (name skill)
         in [''### '' @ serverName, ''''] @
            (case discover manager info ctx of
               Inr (tools, resources, prompts) \<Rightarrow> capability_lines lib tools resources prompts
             | Inl e \<Rightarrow> [failure_note e]) @
            ['''', usage_line serverName, '''']))"

fun push_servers ::
  "js_library \<Rightarrow> SkillMcpManager \<Rightarrow> LoadedSkill \<Rightarrow> string \<Rightarrow> string list
     \<Rightarrow> (string \<times> js) list \<Rightarrow> string list"
where
  "push_servers lib manager skill session sections [] = sections"
| "push_servers lib manager skill session sections (entry # entries) =
     push_servers lib manager skill session
       (sections @ server_sections lib manager skill session entry) entries"

definition formatMcpCapabilities ::
  "js_library \<Rightarrow> SkillMcpManager \<Rightarrow> LoadedSkill \<Rightarrow> string \<Rightarrow> string option"
where
  "formatMcpCapabilities lib manager skill session =
     (case mcpConfig skill of
        None \<Rightarrow> None
      | Some cfg \<Rightarrow>
          if length (map fst cfg) = 0 then None
          else Some (join nl
                 (push_servers lib manager skill session
                    ['''', ''## Available MCP Servers'', ''''] cfg)))"

section \<open>The plugin: session lifecycle events\<close>

datatype event = SessionCreated string | SessionDeleted string | OtherEvent string

text \<open>\<^verbatim>\<open>getSessionID: () => currentSessionID || 'unknown'\<close>.\<close>

definition getSessionID :: "string option \<Rightarrow> string" where
  "getSessionID currentSessionID =
     (case currentSessionID of
        None \<Rightarrow> ''unknown''
      | Some s \<Rightarrow> if s = [] then ''unknown'' else s)"

text \<open>
  What the handler does, in order: an assignment to \<^verbatim>\<open>currentSessionID\<close>, or a call
  of \<^verbatim>\<open>manager.disconnectSession\<close> with the value passed.
\<close>

datatype session_effect = AssignSessionID "string option" | DisconnectSession "string option"

text \<open>
  The \<^verbatim>\<open>event\<close> handler, from the tracked \<^verbatim>\<open>currentSessionID\<close> and an event to
  the error the handler rejects with (if \<^verbatim>\<open>disconnectSession\<close> does), the tracked id
  afterwards and the effects.
\<close>

definition event_handler ::
  "SkillMcpManager \<Rightarrow> string option \<Rightarrow> event
     \<Rightarrow> error option \<times> string option \<times> session_effect list"
where
  "event_handler manager currentSessionID ev =
     (let (current, assigned) =
            (case ev of
               SessionCreated i \<Rightarrow> (Some i, [AssignSessionID (Some i)])
             | _ \<Rightarrow> (currentSessionID, []))
      in case ev of
           SessionDeleted i \<Rightarrow>
             if truthy_str current
             then (case disconnectSession manager current of
                     Some e \<Rightarrow> (Some e, current, assigned @ [DisconnectSession current])
                   | None \<Rightarrow>
                       (None, None,
                        assigned @ [DisconnectSession current, AssignSessionID None]))
             else (None, current, assigned)
         | _ \<Rightarrow> (None, current, assigned))"

text \<open>The handler over a sequence of events, one after the other.\<close>

fun handle_events ::
  "SkillMcpManager \<Rightarrow> string option \<Rightarrow> event list \<Rightarrow> string option \<times> session_effect list"
where
  "handle_events manager currentSessionID [] = (currentSessionID, [])"
| "handle_events manager currentSessionID (ev # evs) =
     (case event_handler manager currentSessionID ev of
        (outcome, current, effects) \<Rightarrow>
          (case handle_events manager current evs of
             (final, later) \<Rightarrow> (final, effects @ later)))"

section \<open>utils/frontmatter.ts\<close>

text \<open>Truthiness of a value.\<close>

fun truthy :: "js \<Rightarrow> bool" where
  "truthy JUndefined = False"
| "truthy JNull = False"
| "truthy (JBool b) = b"
| "truthy (JNum n) = (integer_value n \<noteq> 0)"
| "truthy (JStr s) = (s \<noteq> [])"
| "truthy (JArr xs) = True"
| "truthy (JObj kvs) = True"

text \<open>\<^verbatim>\<open>a || b\<close>.\<close>

definition js_or :: "js \<Rightarrow> js \<Rightarrow> js" where
  "js_or a b = (if truthy a then a else b)"

text \<open>
  \<^verbatim>\<open>k in v\<close> and \<^verbatim>\<open>v.k\<close> for an object or array \<open>v\<close> and the keys read here
  (\<^verbatim>\<open>mcpServers\<close>, \<^verbatim>\<open>mcp\<close>, \<^verbatim>\<open>command\<close>, \<^verbatim>\<open>name\<close>, \<^verbatim>\<open>description\<close>): no
  array has one of them, and no prototype provides one.
\<close>

fun has_key :: "string \<Rightarrow> js \<Rightarrow> bool" where
  "has_key k (JObj kvs) = js_in k kvs"
| "has_key k v = False"

fun js_prop :: "js \<Rightarrow> string \<Rightarrow> js" where
  "js_prop (JObj kvs) k = (case map_of kvs k of Some v \<Rightarrow> v | None \<Rightarrow> JUndefined)"
| "js_prop v k = JUndefined"

text \<open>\<^verbatim>\<open>Object.values(v)\<close> for an object or array.\<close>

fun js_values :: "js \<Rightarrow> js list" where
  "js_values (JObj kvs) = map snd kvs"
| "js_values (JArr xs) = xs"
| "js_values v = []"

fun strip_prefix :: "string \<Rightarrow> string \<Rightarrow> string option" where
  "strip_prefix [] s = Some s"
| "strip_prefix (p # ps) [] = None"
| "strip_prefix (p # ps) (c # cs) = (if p = c then strip_prefix ps cs else None)"

text \<open>
  The regular expression \<^verbatim>\<open>/^---\r?\n([\s\S]*?)\r?\n---/\<close>: after the opening fence, the
  lazy group ends at the first position where \<^verbatim>\<open>\r?\n---\<close> follows. \<open>close_fence\<close>
  answers the group and the text after the match.
\<close>

fun close_fence :: "string \<Rightarrow> string \<Rightarrow> (string \<times> string) option" where
  "close_fence captured [] = None"
| "close_fence captured (c # cs) =
     (case strip_prefix (CHR 0x0D # nl @ ''---'') (c # cs) of
        Some rest \<Rightarrow> Some (captured, rest)
      | None \<Rightarrow>
          (case strip_prefix (nl @ ''---'') (c # cs) of
             Some rest \<Rightarrow> Some (captured, rest)
           | None \<Rightarrow> close_fence (captured @ [c]) cs))"

definition frontmatterMatch :: "string \<Rightarrow> (string \<times> string) option" where
  "frontmatterMatch content =
     (case strip_prefix ''---'' content of
        None \<Rightarrow> None
      | Some r \<Rightarrow>
          (case strip_prefix (CHR 0x0D # nl) r of
             Some inner \<Rightarrow> close_fence [] inner
           | None \<Rightarrow>
               (case strip_prefix nl r of
                  Some inner \<Rightarrow> close_fence [] inner
                | None \<Rightarrow> None)))"

text \<open>
  \<^verbatim>\<open>yaml.load\<close> is a parameter: \<open>None\<close> when it throws. The \<^verbatim>\<open>data\<close> of
  \<^verbatim>\<open>parseFrontmatter\<close>.
\<close>

definition parseFrontmatter_data :: "(string \<Rightarrow> js option) \<Rightarrow> string \<Rightarrow> js" where
  "parseFrontmatter_data yaml_load content =
     (case frontmatterMatch content of
        None \<Rightarrow> JObj []
      | Some (inner, rest) \<Rightarrow>
          (case yaml_load inner of
             None \<Rightarrow> JObj []
           | Some loaded \<Rightarrow> js_or loaded (JObj [])))"

definition parseSkillMcpConfigFromFrontmatter :: "(string \<Rightarrow> js option) \<Rightarrow> string \<Rightarrow> js" where
  "parseSkillMcpConfigFromFrontmatter yaml_load content =
     (case frontmatterMatch content of
        None \<Rightarrow> JUndefined
      | Some (inner, rest) \<Rightarrow>
          (case yaml_load inner of
             None \<Rightarrow> JUndefined
           | Some parsed \<Rightarrow>
               if truthy parsed \<and> typeof parsed = ''object'' \<and> has_key ''mcp'' parsed
                  \<and> truthy (js_prop parsed ''mcp'')
               then js_prop parsed ''mcp''
               else JUndefined))"

section \<open>skill-loader.ts\<close>

text \<open>
  The file system and the libraries the loader calls: \<^verbatim>\<open>fs.readFile\<close> (\<open>None\<close> when
  it rejects), \<^verbatim>\<open>path.join\<close>, \<^verbatim>\<open>yaml.load\<close> and \<^verbatim>\<open>JSON.parse\<close> (\<open>None\<close> when
  they throw).
\<close>

record loader_env =
  readFile :: "string \<Rightarrow> string option"
  path_join :: "string \<Rightarrow> string \<Rightarrow> string"
  yaml_load :: "string \<Rightarrow> js option"
  json_parse :: "string \<Rightarrow> js option"

definition hasCommandField :: "js \<Rightarrow> bool" where
  "hasCommandField parsed =
     list_ex (\<lambda>v. truthy v \<and> typeof v = ''object'' \<and> has_key ''command'' v) (js_values parsed)"

definition loadMcpJsonFromDir :: "loader_env \<Rightarrow> string \<Rightarrow> js" where
  "loadMcpJsonFromDir env skillDir =
     (case readFile env (path_join env skillDir ''mcp.json'') of
        None \<Rightarrow> JUndefined
      | Some content \<Rightarrow>
          (case json_parse env content of
             None \<Rightarrow> JUndefined
           | Some parsed \<Rightarrow>
               if truthy parsed \<and> typeof parsed = ''object'' \<and> has_key ''mcpServers'' parsed
                  \<and> truthy (js_prop parsed ''mcpServers'')
               then js_prop parsed ''mcpServers''
               else if truthy parsed \<and> typeof parsed = ''object'' \<and> has_key ''mcp'' parsed
                  \<and> truthy (js_prop parsed ''mcp'')
               then js_prop parsed ''mcp''
               else if truthy parsed \<and> typeof parsed = ''object''
                  \<and> \<not> has_key ''mcpServers'' parsed \<and> \<not> has_key ''mcp'' parsed
               then (if hasCommandField parsed then parsed else JUndefined)
               else JUndefined))"

text \<open>
  The object \<^verbatim>\<open>loadSkillFromPath\<close> returns, without the lazy content loader; the values
  read from the front matter are kept as parsed. The function answers \<^verbatim>\<open>null\<close> when
  anything in its \<^verbatim>\<open>try\<close> block throws: the read of the file, or the template
  literal that renders the description.
\<close>

record loaded_skill =
  ls_name :: js
  ls_path :: string
  ls_resolvedPath :: string
  ls_description :: string
  ls_scope :: string
  ls_mcpConfig :: js

definition loadSkillFromPath ::
  "loader_env \<Rightarrow> string \<Rightarrow> string \<Rightarrow> string \<Rightarrow> string \<Rightarrow> loaded_skill option"
where
  "loadSkillFromPath env skillPath resolvedPath defaultName scope =
     (case readFile env skillPath of
        None \<Rightarrow> None
      | Some content \<Rightarrow>
          (let data = parseFrontmatter_data (yaml_load env) content;
               frontmatterMcp = parseSkillMcpConfigFromFrontmatter (yaml_load env) content;
               mcpJsonMcp = loadMcpJsonFromDir env resolvedPath;
               mcpConfig = js_or mcpJsonMcp frontmatterMcp;
               skillName = js_or (js_prop data ''name'') (JStr defaultName);
               originalDescription = js_or (js_prop data ''description'') (JStr [])
           in case js_ToString originalDescription of
                Inl e \<Rightarrow> None
              | Inr rendered \<Rightarrow>
                  Some \<lparr>ls_name = skillName,
                        ls_path = skillPath,
                        ls_resolvedPath = resolvedPath,
                        ls_description = ''('' @ scope @ '' - Skill) '' @ rendered,
                        ls_scope = scope,
                        ls_mcpConfig = mcpConfig\<rparr>))"

text \<open>
  The recognized shapes as the specification words them: an object under
  \<^verbatim>\<open>mcpServers\<close>, an object under \<^verbatim>\<open>mcp\<close>, or a bare mapping whose values each
  contain a \<^verbatim>\<open>command\<close> field.
\<close>

fun is_object :: "js \<Rightarrow> bool" where
  "is_object (JObj kvs) = True"
| "is_object v = False"

definition spec_mcp_json_shape :: "js \<Rightarrow> bool" where
  "spec_mcp_json_shape parsed =
     (is_object parsed \<and>
      (is_object (js_prop parsed ''mcpServers'') \<or>
       is_object (js_prop parsed ''mcp'') \<or>
       list_all (\<lambda>v. is_object v \<and> has_key ''command'' v) (js_values parsed)))"

section \<open>utils/env-vars.ts\<close>

text \<open>
  A server configuration as the Command Normalizer reads it: the \<^verbatim>\<open>command\<close> field
  (\<open>JUndefined\<close> when missing) and the optional \<^verbatim>\<open>args\<close> array.
\<close>

record McpServerConfig =
  cfg_command :: js
  cfg_args :: "js list option"

datatype config_error = InvalidConfiguration string

text \<open>
  Modelled from the spec: \<^verbatim>\<open>normalizeCommand\<close> of \<^verbatim>\<open>utils/env-vars.ts\<close>, of which only
  the tests are at hand. The three rules of the Command Normalizer, in their order: an
  array command gives its first element as the executable and the remaining elements as
  the arguments, each coerced to a string, whatever \<^verbatim>\<open>args\<close> holds (an empty array has
  no first element: reading it gives \<^verbatim>\<open>undefined\<close>); else a non-empty string command
  is the executable, with the elements of \<^verbatim>\<open>args\<close> coerced to strings, or no arguments
  when \<^verbatim>\<open>args\<close> is missing; else the configuration is invalid, with the message the
  tests expect. The specification names no failure of a coercion: an element is taken to
  what \<^verbatim>\<open>String\<close> returns for it.
\<close>

definition normalizeCommand :: "McpServerConfig \<Rightarrow> config_error + string \<times> string list" where
  "normalizeCommand cfg =
     (case cfg_command cfg of
        JArr elements \<Rightarrow>
          (case elements of
             [] \<Rightarrow> Inr (js_String JUndefined, [])
           | e # rest \<Rightarrow> Inr (js_String e, map js_String rest))
      | JStr s \<Rightarrow>
          if s \<noteq> []
          then (case cfg_args cfg of
                  Some given \<Rightarrow> Inr (s, map js_String given)
                | None \<Rightarrow> Inr (s, []))
          else Inl (InvalidConfiguration
                 ''Invalid MCP command configuration: command must be a string or array'')
      | _ \<Rightarrow> Inl (InvalidConfiguration
                 ''Invalid MCP command configuration: command must be a string or array''))"

section \<open>Concrete collaborators for the examples\<close>

text \<open>
  A stand-in for \<^verbatim>\<open>RegExp\<close> on patterns without metacharacters: the pattern matches
  a line that contains it, letters compared without case under the flag \<^verbatim>\<open>i\<close>; a
  pattern with an opening parenthesis (never closed, there being no other metacharacter)
  does not compile.
\<close>

definition to_lower :: "char \<Rightarrow> char" where
  "to_lower c =
     (let n = (of_char c :: nat) in if 65 \<le> n \<and> n \<le> 90 then char_of (n + 32) else c)"

fun contains :: "string \<Rightarrow> string \<Rightarrow> bool" where
  "contains p [] = (p = [])"
| "contains p (c # cs) = (strip_prefix p (c # cs) \<noteq> None \<or> contains p cs)"

definition literal_RegExp :: regexp where
  "literal_RegExp p flags =
     (if CHR ''('' \<in> set p then None
      else Some (\<lambda>line. if CHR ''i'' \<in> set flags
                          then contains (map to_lower p) (map to_lower line)
                          else contains p line))"

definition plain_library :: js_library where
  "plain_library =
     \<lparr>lib_RegExp = literal_RegExp,
      lib_JSON_parse = (\<lambda>s. if s = ''{}'' then Inr (JObj []) else Inl ''Unexpected token''),
      lib_JSON_stringify = js_String\<rparr>"

text \<open>A Manager whose servers offer nothing and whose calls all succeed.\<close>

definition quiet_manager :: SkillMcpManager where
  "quiet_manager =
     \<lparr>listTools = (\<lambda>info ctx. Resolves []),
      listResources = (\<lambda>info ctx. Resolves []),
      listPrompts = (\<lambda>info ctx. Resolves []),
      callTool = (\<lambda>info ctx tool input. Inr JNull),
      readResource = (\<lambda>info ctx resource. Inr JNull),
      getPrompt = (\<lambda>info ctx prompt input. Inr JNull),
      disconnectSession = (\<lambda>session. None)\<rparr>"

text \<open>
  A server that has resources but answers \<^verbatim>\<open>tools/list\<close> with an error, and the same
  server with an empty tool list.
\<close>

definition resources_only_manager :: SkillMcpManager where
  "resources_only_manager =
     quiet_manager
       \<lparr>listTools := (\<lambda>info ctx. Rejects (Error ''Method not found'')),
        listResources := (\<lambda>info ctx. Resolves [McpResource ''memory://notes''])\<rparr>"

definition resources_no_tools_manager :: SkillMcpManager where
  "resources_no_tools_manager =
     quiet_manager
       \<lparr>listResources := (\<lambda>info ctx. Resolves [McpResource ''memory://notes''])\<rparr>"

text \<open>
  A Manager for which the server \<^verbatim>\<open>broken\<close> cannot be started (\<^verbatim>\<open>listTools\<close>
  throws), \<^verbatim>\<open>stalled\<close> fails in \<^verbatim>\<open>listResources\<close> and \<^verbatim>\<open>closed\<close> in
  \<^verbatim>\<open>listPrompts\<close> (the calls throw), while every server that is started has resources
  and answers \<^verbatim>\<open>tools/list\<close> with an error.
\<close>

definition failing_manager :: SkillMcpManager where
  "failing_manager =
     quiet_manager
       \<lparr>listTools := (\<lambda>info ctx. if info_serverName info = ''broken''
                                   then Throws (Error (''spawn ENOENT'' @ nl @ ''    at spawn''))
                                   else Rejects (Error ''Method not found'')),
        listResources := (\<lambda>info ctx. if info_serverName info = ''stalled''
                                   then Throws (Error ''write EPIPE'')
                                   else Resolves [McpResource ''memory://notes'']),
        listPrompts := (\<lambda>info ctx. if info_serverName info = ''closed''
                                   then Throws (Error ''stream closed'')
                                   else Resolves [])\<rparr>"

definition notes_skill :: LoadedSkill where
  "notes_skill =
     \<lparr>name = ''notes'',
      mcpConfig = Some [(''memory'', JObj [(''command'', JStr ''memory-mcp'')])]\<rparr>"

definition ops_skill :: LoadedSkill where
  "ops_skill =
     \<lparr>name = ''ops'',
      mcpConfig = Some [(''broken'', JObj [(''command'', JStr ''no-such-binary'')]),
                        (''stalled'', JObj [(''command'', JStr ''stalled-mcp'')]),
                        (''closed'', JObj [(''command'', JStr ''closed-mcp'')]),
                        (''memory'', JObj [(''command'', JStr ''memory-mcp'')])]\<rparr>"

definition db_skill :: LoadedSkill where
  "db_skill =
     \<lparr>name = ''db'',
      mcpConfig = Some [(''sqlite'', JObj [(''command'', JStr ''sqlite-mcp'')])]\<rparr>"

text \<open>
  A skill directory with a \<^verbatim>\<open>SKILL.md\<close> whose front matter declares a server and a
  sibling \<^verbatim>\<open>mcp.json\<close>; \<open>bare_json\<close> is a bare mapping with one server and a
  \<^verbatim>\<open>$schema\<close> entry.
\<close>

definition skill_md :: string where
  "skill_md = ''---'' @ nl @ ''name: db'' @ nl @ ''mcp: {from-frontmatter: {command: fm-mcp}}'' @ nl @
              ''---'' @ nl @ ''Query the database.''"

definition frontmatter_value :: js where
  "frontmatter_value =
     JObj [(''name'', JStr ''db''),
           (''mcp'', JObj [(''from-frontmatter'', JObj [(''command'', JStr ''fm-mcp'')])])]"

definition servers_json :: js where
  "servers_json =
     JObj [(''mcpServers'', JObj [(''sqlite'', JObj [(''command'', JStr ''sqlite-mcp'')])])]"

definition bare_json :: js where
  "bare_json =
     JObj [(''sqlite'', JObj [(''command'', JStr ''sqlite-mcp'')]),
           (''$schema'', JStr ''https://example.com/mcp.schema.json'')]"

definition skill_dir_env :: "js \<Rightarrow> loader_env" where
  "skill_dir_env sibling =
     \<lparr>readFile = (\<lambda>path. if path = ''/skills/db/SKILL.md'' then Some skill_md
                          else if path = ''/skills/db/mcp.json'' then Some ''(mcp.json)''
                          else None),
      path_join = (\<lambda>dir file. dir @ ''/'' @ file),
      yaml_load = (\<lambda>text. if text = ''name: db'' @ nl @ ''mcp: {from-frontmatter: {command: fm-mcp}}''
                           then Some frontmatter_value else None),
      json_parse = (\<lambda>text. if text = ''(mcp.json)'' then Some sibling else None)\<rparr>"

section \<open>Properties\<close>

lemma split_nl_not_Nil: "split_nl s \<noteq> []"
  by (induction s) (auto split: list.splits)

lemma join_split_nl: "join nl (split_nl s) = s"
proof (induction s)
  case Nil
  show ?case by simp
next
  case (Cons c cs)
  show ?case
  proof (cases "c = CHR 0x0A")
    case True
    obtain l ls where "split_nl cs = l # ls"
      using split_nl_not_Nil [of cs] by (cases "split_nl cs") auto
    with True Cons show ?thesis by simp
  next
    case False
    obtain l ls where s: "split_nl cs = l # ls"
      using split_nl_not_Nil [of cs] by (cases "split_nl cs") auto
    with Cons have "join nl (l # ls) = cs" by simp
    with False s show ?thesis by (cases ls) auto
  qed
qed

subsection \<open>Operation selectors\<close>

lemma push_operation_truthy:
  "push_operation t v = (if truthy_str v then [\<lparr>op_type = t, op_name = the v\<rparr>] else [])"
  by (cases v) (auto simp: push_operation_def)

lemma length_operations:
  "length (push_operation Tool (tool_name args) @ push_operation Resource (resource_name args) @
           push_operation Prompt (prompt_name args)) = length (present_selectors args)"
  by (simp add: push_operation_truthy present_selectors_def)

lemma validate_fails:
  assumes "length (present_selectors args) \<noteq> 1"
  shows "validateOperationParams args =
     Inl (Error (if length (present_selectors args) = 0 then missing_operation_message
                 else multiple_operations_message args))"
proof -
  from assms consider "length (present_selectors args) = 0" | "length (present_selectors args) > 1"
    by linarith
  then show ?thesis
    unfolding validateOperationParams_def Let_def length_operations
    by cases simp_all
qed

text \<open>
  C1. A call of the invoke tool in which none or more than one of \<^verbatim>\<open>tool_name\<close>,
  \<^verbatim>\<open>resource_name\<close>, \<^verbatim>\<open>prompt_name\<close> is given (a selector is given when it is a
  non-empty string) fails with an error and has made no call at all by then: neither the
  loaded skills nor the session id were asked for and no Manager operation ran. With none
  given the error is the missing-operation message; with several it is the message that
  starts with \<^verbatim>\<open>Multiple operations specified.\<close> and lists what was received.
\<close>

theorem invoke_rejects_selector_count:
  assumes "length (present_selectors args) \<noteq> 1"
  shows "execute lib manager loadedSkills currentSession args =
           (Inl (Error (if length (present_selectors args) = 0 then missing_operation_message
                        else multiple_operations_message args)), [])
         \<and> prefix ''Multiple operations specified.'' (multiple_operations_message args)"
  using assms by (simp add: execute_def validate_fails multiple_operations_message_def)

theorem invoke_rejects_selector_count_witness:
  "length (present_selectors
      \<lparr>mcp_name = ''sqlite'', tool_name = Some ''query'', resource_name = Some ''memory://notes'',
       prompt_name = None, arguments = None, grep = None\<rparr>) \<noteq> 1
   \<and> execute plain_library quiet_manager [db_skill] ''ses_1''
      \<lparr>mcp_name = ''sqlite'', tool_name = Some ''query'', resource_name = Some ''memory://notes'',
       prompt_name = None, arguments = None, grep = None\<rparr> =
     (Inl (Error
        (''Multiple operations specified. Exactly one of tool_name, resource_name, or prompt_name must be provided.'' @ nl @ nl @
         ''Received: tool_name='' @ dq @ ''query'' @ dq @ '', resource_name='' @ dq @ ''memory://notes'' @ dq @ nl @ nl @
         ''Use separate calls for each operation.'')), [])"
proof -
  have h: "length (present_selectors
      \<lparr>mcp_name = ''sqlite'', tool_name = Some ''query'', resource_name = Some ''memory://notes'',
       prompt_name = None, arguments = None, grep = None\<rparr>) \<noteq> 1"
    by (simp add: present_selectors_def)
  show ?thesis
    using h invoke_rejects_selector_count [OF h, of plain_library quiet_manager "[db_skill]" "''ses_1''"]
    by (simp add: present_selectors_def multiple_operations_message_def provided_def
        provided_item_def)
qed

text \<open>
  C9. When each of \<^verbatim>\<open>tool_name\<close>, \<^verbatim>\<open>resource_name\<close> and \<^verbatim>\<open>prompt_name\<close> is absent
  or the empty string, the empty strings count as absent: validation fails with the
  missing-operation error, and the call ends with that error without any lookup or Manager
  operation, so nothing is invoked under an empty name.
\<close>

theorem empty_selectors_count_as_missing:
  assumes "tool_name args = None \<or> tool_name args = Some []"
    and "resource_name args = None \<or> resource_name args = Some []"
    and "prompt_name args = None \<or> prompt_name args = Some []"
  shows "validateOperationParams args = Inl (Error missing_operation_message)
         \<and> execute lib manager loadedSkills currentSession args =
             (Inl (Error missing_operation_message), [])
         \<and> prefix ''Missing operation.'' missing_operation_message"
proof -
  have "present_selectors args = []"
    using assms by (auto simp: present_selectors_def)
  then have v: "validateOperationParams args = Inl (Error missing_operation_message)"
    using validate_fails [of args] by simp
  then show ?thesis
    by (simp add: execute_def missing_operation_message_def)
qed

theorem empty_selectors_count_as_missing_witness:
  "execute plain_library quiet_manager [db_skill] ''ses_1''
     \<lparr>mcp_name = ''sqlite'', tool_name = Some [], resource_name = None,
      prompt_name = Some [], arguments = None, grep = None\<rparr> =
   (Inl (Error missing_operation_message), [])"
  using empty_selectors_count_as_missing
    [of "\<lparr>mcp_name = ''sqlite'', tool_name = Some [], resource_name = None,
          prompt_name = Some [], arguments = None, grep = None\<rparr>"
        plain_library quiet_manager "[db_skill]" "''ses_1''"]
  by simp

subsection \<open>The grep post-filter\<close>

lemma split_nl_no_newline: "CHR 0x0A \<notin> set x \<Longrightarrow> split_nl x = [x]"
  by (induction x) auto

lemma split_nl_append:
  "CHR 0x0A \<notin> set x \<Longrightarrow> split_nl (x @ nl @ rest) = x # split_nl rest"
  by (induction x) auto

lemma split_nl_join:
  "ls \<noteq> [] \<Longrightarrow> \<forall>l \<in> set ls. CHR 0x0A \<notin> set l \<Longrightarrow> split_nl (join nl ls) = ls"
proof (induction ls)
  case Nil
  then show ?case by simp
next
  case (Cons x ys)
  show ?case
  proof (cases ys)
    case Nil
    with Cons.prems show ?thesis by (simp add: split_nl_no_newline)
  next
    case (Cons y zs)
    with Cons.IH Cons.prems have "split_nl (join nl ys) = ys" by simp
    with Cons Cons.prems show ?thesis
      using split_nl_append [of x "join nl ys"] by simp
  qed
qed

lemma split_nl_lines: "l \<in> set (split_nl s) \<Longrightarrow> CHR 0x0A \<notin> set l"
proof (induction s arbitrary: l)
  case Nil
  then show ?case by simp
next
  case (Cons c cs)
  obtain h t where s: "split_nl cs = h # t"
    using split_nl_not_Nil [of cs] by (cases "split_nl cs") auto
  have h: "CHR 0x0A \<notin> set h" and t: "\<forall>x \<in> set t. CHR 0x0A \<notin> set x"
    using Cons.IH s by auto
  show ?case
  proof (cases "c = CHR 0x0A")
    case True
    with Cons.prems s h t show ?thesis by auto
  next
    case False
    with Cons.prems s h t show ?thesis by auto
  qed
qed

text \<open>
  C7. With no pattern (absent or empty) the output is returned unchanged. With a pattern
  that compiles, under the flag \<^verbatim>\<open>i\<close>, to the line test \<open>test\<close>: when some line of
  the output matches, the lines of the result are exactly the matching lines of the
  output, in their order; when no line matches, the result is the marker
  \<^verbatim>\<open>[grep] No lines matched pattern: \<close> followed by the pattern, which is not the empty
  string.
\<close>

theorem grep_filter_returns_matching_lines:
  "applyGrepFilter RegExp output None = output \<and>
   applyGrepFilter RegExp output (Some []) = output \<and>
   (\<forall>test. p \<noteq> [] \<and> RegExp p ''i'' = Some test \<longrightarrow>
      ((\<exists>l \<in> set (split_nl output). test l) \<longrightarrow>
         split_nl (applyGrepFilter RegExp output (Some p)) = filter test (split_nl output)) \<and>
      ((\<forall>l \<in> set (split_nl output). \<not> test l) \<longrightarrow>
         applyGrepFilter RegExp output (Some p) = ''[grep] No lines matched pattern: '' @ p \<and>
         applyGrepFilter RegExp output (Some p) \<noteq> []))"
proof -
  have a: "applyGrepFilter RegExp output None = output"
    by (simp add: applyGrepFilter_def)
  have b: "applyGrepFilter RegExp output (Some []) = output"
    by (simp add: applyGrepFilter_def)
  have c: "split_nl (applyGrepFilter RegExp output (Some p)) = filter test (split_nl output)"
    if "p \<noteq> []" "RegExp p ''i'' = Some test" "\<exists>l \<in> set (split_nl output). test l" for test
  proof -
    have ne: "filter test (split_nl output) \<noteq> []"
      using that(3) by (simp add: filter_empty_conv)
    have "\<forall>l \<in> set (filter test (split_nl output)). CHR 0x0A \<notin> set l"
      using split_nl_lines by auto
    with ne have "split_nl (join nl (filter test (split_nl output))) = filter test (split_nl output)"
      by (rule split_nl_join)
    with that(1,2) ne show ?thesis by (simp add: applyGrepFilter_def)
  qed
  have d: "applyGrepFilter RegExp output (Some p) = ''[grep] No lines matched pattern: '' @ p \<and>
           applyGrepFilter RegExp output (Some p) \<noteq> []"
    if "p \<noteq> []" "RegExp p ''i'' = Some test" "\<forall>l \<in> set (split_nl output). \<not> test l" for test
  proof -
    have "filter test (split_nl output) = []"
      using that(3) by (simp add: filter_empty_conv)
    with that(1,2) show ?thesis by (simp add: applyGrepFilter_def no_lines_matched_def)
  qed
  from a b c d show ?thesis by blast
qed

lemma literal_RegExp_rows:
  "literal_RegExp ''rows'' ''i'' = Some (\<lambda>line. contains ''rows'' (map to_lower line))"
  by (simp add: literal_RegExp_def to_lower_def)

lemma literal_RegExp_cols:
  "literal_RegExp ''cols'' ''i'' = Some (\<lambda>line. contains ''cols'' (map to_lower line))"
  by (simp add: literal_RegExp_def to_lower_def)

theorem grep_filter_returns_matching_lines_witness:
  "split_nl (applyGrepFilter literal_RegExp
      (''ROWS: 2'' @ nl @ ''id=1'' @ nl @ ''total rows'') (Some ''rows'')) =
     [''ROWS: 2'', ''total rows'']
   \<and> applyGrepFilter literal_RegExp
      (''ROWS: 2'' @ nl @ ''id=1'' @ nl @ ''total rows'') (Some ''cols'') =
     ''[grep] No lines matched pattern: cols''"
proof -
  have m: "\<exists>l \<in> set (split_nl (''ROWS: 2'' @ nl @ ''id=1'' @ nl @ ''total rows'')).
             contains ''rows'' (map to_lower l)"
    by code_simp
  have n: "\<forall>l \<in> set (split_nl (''ROWS: 2'' @ nl @ ''id=1'' @ nl @ ''total rows'')).
             \<not> contains ''cols'' (map to_lower l)"
    by code_simp
  have f: "filter (\<lambda>line. contains ''rows'' (map to_lower line))
             (split_nl (''ROWS: 2'' @ nl @ ''id=1'' @ nl @ ''total rows'')) =
           [''ROWS: 2'', ''total rows'']"
    by code_simp
  have a: "''rows'' \<noteq> [] \<and>
           literal_RegExp ''rows'' ''i'' = Some (\<lambda>line. contains ''rows'' (map to_lower line))"
    using literal_RegExp_rows by simp
  have b: "''cols'' \<noteq> [] \<and>
           literal_RegExp ''cols'' ''i'' = Some (\<lambda>line. contains ''cols'' (map to_lower line))"
    using literal_RegExp_cols by simp
  note rows = grep_filter_returns_matching_lines
    [of literal_RegExp "''ROWS: 2'' @ nl @ ''id=1'' @ nl @ ''total rows''" "''rows''",
     THEN conjunct2, THEN conjunct2, THEN spec, THEN mp, OF a]
  note cols = grep_filter_returns_matching_lines
    [of literal_RegExp "''ROWS: 2'' @ nl @ ''id=1'' @ nl @ ''total rows''" "''cols''",
     THEN conjunct2, THEN conjunct2, THEN spec, THEN mp, OF b]
  have first: "split_nl (applyGrepFilter literal_RegExp
      (''ROWS: 2'' @ nl @ ''id=1'' @ nl @ ''total rows'') (Some ''rows'')) =
     [''ROWS: 2'', ''total rows'']"
    using rows [THEN conjunct1, THEN mp, OF m] f by (rule trans)
  have second: "applyGrepFilter literal_RegExp
      (''ROWS: 2'' @ nl @ ''id=1'' @ nl @ ''total rows'') (Some ''cols'') =
     ''[grep] No lines matched pattern: '' @ ''cols''"
    using cols [THEN conjunct2, THEN mp, OF n] by (rule conjunct1)
  from first second show ?thesis by simp
qed

text \<open>
  C10. A pattern that is not a valid regular expression (the \<^verbatim>\<open>RegExp\<close> constructor
  throws) is ignored: the output is returned unchanged, no error is raised and no line is
  dropped.
\<close>

theorem grep_filter_ignores_invalid_pattern:
  assumes "p \<noteq> []" and "RegExp p ''i'' = None"
  shows "applyGrepFilter RegExp output (Some p) = output"
  using assms by (simp add: applyGrepFilter_def)

theorem grep_filter_ignores_invalid_pattern_witness:
  "literal_RegExp ''(rows'' ''i'' = None
   \<and> applyGrepFilter literal_RegExp (''ROWS: 2'' @ nl @ ''id=1'') (Some ''(rows'') =
       ''ROWS: 2'' @ nl @ ''id=1''"
proof -
  have h: "literal_RegExp ''(rows'' ''i'' = None"
    by (simp add: literal_RegExp_def)
  have ne: "''(rows'' \<noteq> []" by simp
  show ?thesis
    using h grep_filter_ignores_invalid_pattern
      [of "''(rows''" literal_RegExp "''ROWS: 2'' @ nl @ ''id=1''", OF ne h]
    by simp
qed


subsection \<open>Server lookup\<close>

lemma findMcpServer_None:
  assumes "\<forall>skill \<in> set skills. \<forall>cfg. mcpConfig skill = Some cfg \<longrightarrow> \<not> js_in mcpName cfg"
  shows "findMcpServer mcpName skills = None"
  using assms by (induction skills) (auto split: option.splits)

lemma join_contains_line:
  "x \<in> set xs \<Longrightarrow> \<exists>before after. join sep xs = before @ x @ after"
proof (induction sep xs rule: join.induct)
  case (1 sep)
  then show ?case by simp
next
  case (2 sep y)
  then have "join sep [y] = [] @ x @ []" by simp
  then show ?case by blast
next
  case (3 sep y z zs)
  show ?case
  proof (cases "x = y")
    case True
    then have "join sep (y # z # zs) = [] @ x @ (sep @ join sep (z # zs))" by simp
    then show ?thesis by blast
  next
    case False
    with 3 obtain before after where "join sep (z # zs) = before @ x @ after" by auto
    then have "join sep (y # z # zs) = (y @ sep @ before) @ x @ after" by simp
    then show ?thesis by blast
  qed
qed

text \<open>
  For a server name that no loaded skill declares and that is not a member every object
  inherits, the call fails with the not-found error after asking for the loaded skills
  only, and the error text holds the line of every declared server with its skill.
\<close>

lemma execute_unknown_server:
  assumes "length (present_selectors args) = 1"
    and "\<forall>skill \<in> set loadedSkills. \<forall>cfg. mcpConfig skill = Some cfg \<longrightarrow>
           mcp_name args \<notin> fst ` set cfg"
    and "mcp_name args \<notin> set Object_prototype_keys"
  shows "execute lib manager loadedSkills currentSession args =
           (Inl (Error (not_found_message (mcp_name args) loadedSkills)), [GetLoadedSkills])"
proof -
  define operations where "operations =
    push_operation Tool (tool_name args) @ push_operation Resource (resource_name args) @
    push_operation Prompt (prompt_name args)"
  have "length operations = 1"
    by (simp only: operations_def length_operations assms(1))
  then obtain operation where "operations = [operation]"
    by (cases operations) auto
  then have v: "validateOperationParams args = Inr operation"
    by (simp add: validateOperationParams_def Let_def flip: operations_def)
  have "findMcpServer (mcp_name args) loadedSkills = None"
    using assms(2,3) by (intro findMcpServer_None) (auto simp: js_in_def)
  with v show ?thesis by (simp add: execute_def)
qed

lemma not_found_message_lists_servers:
  assumes "skill \<in> set skills" and "mcpConfig skill = Some cfg" and "(server, c) \<in> set cfg"
  shows "\<exists>before after. not_found_message mcpName skills =
           before @ available_line server (name skill) @ after"
proof -
  have "available_line server (name skill) \<in> set (skill_lines skill)"
    using assms(2,3) by (force simp: skill_lines_def)
  then have m: "available_line server (name skill) \<in> set (concat (map skill_lines skills))"
    using assms(1) by auto
  then have "concat (map skill_lines skills) \<noteq> []"
    by (metis empty_iff empty_set)
  then have "formatAvailableMcps skills = join nl (concat (map skill_lines skills))"
    by (simp add: formatAvailableMcps_def)
  with join_contains_line [OF m, of nl] obtain before after where
    "formatAvailableMcps skills = before @ available_line server (name skill) @ after"
    by auto
  then have "not_found_message mcpName skills =
      (''MCP server '' @ dq @ mcpName @ dq @ '' not found.'' @ nl @ nl @
       ''Available MCP servers in loaded skills:'' @ nl @ before) @
      available_line server (name skill) @
      (after @ nl @ nl @
       ''Hint: Load the skill first using the 'skill' tool, then call skill_mcp.'')"
    by (simp add: not_found_message_def)
  then show ?thesis by blast
qed

text \<open>
  C2. The lookup \<^verbatim>\<open>mcpName in skill.mcpConfig\<close> also holds for the members every object
  inherits. For the server name \<^verbatim>\<open>toString\<close>, which the one loaded skill (declaring
  \<^verbatim>\<open>sqlite\<close> only) does not declare, the call does not fail with the not-found error:
  the lookup succeeds with the inherited member as the configuration and the Manager's
  \<^verbatim>\<open>callTool\<close> is invoked.
\<close>

theorem inherited_name_reaches_manager:
  "findMcpServer ''toString'' [db_skill] =
     Some \<lparr>found_skill = db_skill, found_config = InheritedMember ''toString''\<rparr>
   \<and> snd (execute lib manager [db_skill] ''ses_1''
            \<lparr>mcp_name = ''toString'', tool_name = Some ''query'', resource_name = None,
             prompt_name = None, arguments = None, grep = None\<rparr>) =
       [GetLoadedSkills, GetSessionID,
        CallTool (ClientInfo ''toString'' ''db'' ''ses_1'')
          (ClientContext (InheritedMember ''toString'') ''db'') ''query'' (JObj [])]"
proof -
  have f: "findMcpServer ''toString'' [db_skill] =
     Some \<lparr>found_skill = db_skill, found_config = InheritedMember ''toString''\<rparr>"
    by (simp add: db_skill_def js_in_def js_get_def Object_prototype_keys_def)
  have v: "validateOperationParams
            \<lparr>mcp_name = ''toString'', tool_name = Some ''query'', resource_name = None,
             prompt_name = None, arguments = None, grep = None\<rparr> =
           Inr \<lparr>op_type = Tool, op_name = ''query''\<rparr>"
    by (simp add: validateOperationParams_def push_operation_def)
  have n: "name db_skill = ''db''" by (simp add: db_skill_def)
  show ?thesis
    by (simp add: f v n execute_def parseArguments_def invoke_operation_def Let_def
        del: findMcpServer.simps split: sum.splits prod.splits)
qed

subsection \<open>The Command Normalizer\<close>

text \<open>
  C3. For an array-form command \<^verbatim>\<open>[e, a1, a2, ...]\<close> normalization yields the
  executable \<^verbatim>\<open>e\<close> and the arguments \<^verbatim>\<open>[a1, a2, ...]\<close>, element by element in their
  order (so with their duplicates), each coerced to a string, whatever the \<^verbatim>\<open>args\<close>
  field holds; string elements are returned as they are.
\<close>

theorem normalizeCommand_array_form:
  "normalizeCommand \<lparr>cfg_command = JArr (e # rest), cfg_args = given\<rparr> =
     Inr (js_String e, map js_String rest)
   \<and> normalizeCommand \<lparr>cfg_command = JArr (JStr s # map JStr ss), cfg_args = given\<rparr> =
     Inr (s, ss)"
  by (simp add: normalizeCommand_def comp_def)

lemma normalizeCommand_tests:
  "normalizeCommand \<lparr>cfg_command = JArr [JStr ''node'', JStr ''--port'', JNum (js_integer 3000)],
                     cfg_args = None\<rparr> = Inr (''node'', [''--port'', ''3000''])"
  "normalizeCommand \<lparr>cfg_command = JArr [JStr ''npx'', JStr ''-y'', JStr ''@some/package''],
                     cfg_args = Some [JStr ''should'', JStr ''be'', JStr ''ignored'']\<rparr> =
     Inr (''npx'', [''-y'', ''@some/package''])"
  by code_simp+

text \<open>
  C4. A configuration whose \<^verbatim>\<open>command\<close> is neither an array nor a string (missing and
  \<^verbatim>\<open>null\<close> included) is rejected with InvalidConfiguration, the message saying that
  command must be a string or array; no normalized pair is returned.
\<close>

theorem normalizeCommand_rejects_other_commands:
  assumes "\<forall>elements. cfg_command cfg \<noteq> JArr elements" and "\<forall>s. cfg_command cfg \<noteq> JStr s"
  shows "normalizeCommand cfg =
           Inl (InvalidConfiguration
                  ''Invalid MCP command configuration: command must be a string or array'')
         \<and> (\<forall>pair. normalizeCommand cfg \<noteq> Inr pair)"
  using assms by (cases "cfg_command cfg") (simp_all add: normalizeCommand_def)

theorem normalizeCommand_rejects_other_commands_witness:
  "normalizeCommand \<lparr>cfg_command = JUndefined, cfg_args = None\<rparr> =
     Inl (InvalidConfiguration
            ''Invalid MCP command configuration: command must be a string or array'')
   \<and> normalizeCommand \<lparr>cfg_command = JNull, cfg_args = Some [JStr ''-y'']\<rparr> =
     Inl (InvalidConfiguration
            ''Invalid MCP command configuration: command must be a string or array'')
   \<and> normalizeCommand \<lparr>cfg_command = JNum (js_integer 42), cfg_args = None\<rparr> =
     Inl (InvalidConfiguration
            ''Invalid MCP command configuration: command must be a string or array'')"
  using normalizeCommand_rejects_other_commands [of "\<lparr>cfg_command = JUndefined, cfg_args = None\<rparr>"]
    normalizeCommand_rejects_other_commands [of "\<lparr>cfg_command = JNull, cfg_args = Some [JStr ''-y'']\<rparr>"]
    normalizeCommand_rejects_other_commands [of "\<lparr>cfg_command = JNum (js_integer 42), cfg_args = None\<rparr>"]
  by simp


subsection \<open>Session lifecycle\<close>

text \<open>
  C8, as stated, fails: a session-end notification that arrives while no session id is
  tracked makes no call of \<^verbatim>\<open>disconnectSession\<close> at all, not exactly one.
\<close>

theorem session_end_untracked_counterexample:
  "event_handler quiet_manager None (SessionDeleted ''ses_1'') = (None, None, [])
   \<and> DisconnectSession (Some ''ses_1'') \<notin>
       set (snd (snd (event_handler quiet_manager None (SessionDeleted ''ses_1''))))"
  by (simp add: event_handler_def)

text \<open>
  The handler disconnects the tracked id, whichever session the notification names: after
  two sessions have started, the end of the first one disconnects the second.
\<close>

lemma session_end_disconnects_latest_session:
  "handle_events quiet_manager None
     [SessionCreated ''ses_1'', SessionCreated ''ses_2'', SessionDeleted ''ses_1''] =
   (None,
    [AssignSessionID (Some ''ses_1''), AssignSessionID (Some ''ses_2''),
     DisconnectSession (Some ''ses_2''), AssignSessionID None])"
  by (simp add: event_handler_def quiet_manager_def)

text \<open>
  C8, amended. On a session-end notification for the tracked session (a non-empty id),
  \<^verbatim>\<open>disconnectSession\<close> is invoked exactly once, with that id, and the tracked id is
  cleared after the call has returned (it stays when the call rejects). On a session-end
  notification while no id is tracked, nothing is invoked and nothing changes. On any
  event at all, \<^verbatim>\<open>disconnectSession\<close> is invoked at most once and never with a null or
  empty id.
\<close>

theorem session_end_disconnects_tracked_session:
  "(sid \<noteq> [] \<and> disconnectSession manager (Some sid) = None \<longrightarrow>
      event_handler manager (Some sid) (SessionDeleted sid) =
        (None, None, [DisconnectSession (Some sid), AssignSessionID None]))
   \<and> (sid \<noteq> [] \<and> disconnectSession manager (Some sid) = Some e \<longrightarrow>
      event_handler manager (Some sid) (SessionDeleted sid) =
        (Some e, Some sid, [DisconnectSession (Some sid)]))
   \<and> (\<not> truthy_str current \<longrightarrow>
      event_handler manager current (SessionDeleted sid) = (None, current, []))
   \<and> length (filter (\<lambda>eff. \<exists>given. eff = DisconnectSession given)
         (snd (snd (event_handler manager current ev)))) \<le> 1
   \<and> (\<forall>given. DisconnectSession given \<in> set (snd (snd (event_handler manager current ev)))
         \<longrightarrow> truthy_str given)"
proof -
  have a: "event_handler manager (Some sid) (SessionDeleted sid) =
             (None, None, [DisconnectSession (Some sid), AssignSessionID None])"
    if "sid \<noteq> []" "disconnectSession manager (Some sid) = None"
    using that by (simp add: event_handler_def)
  have b: "event_handler manager (Some sid) (SessionDeleted sid) =
             (Some e, Some sid, [DisconnectSession (Some sid)])"
    if "sid \<noteq> []" "disconnectSession manager (Some sid) = Some e"
    using that by (simp add: event_handler_def)
  have c: "event_handler manager current (SessionDeleted sid) = (None, current, [])"
    if "\<not> truthy_str current"
    using that by (simp add: event_handler_def)
  have d: "length (filter (\<lambda>eff. \<exists>given. eff = DisconnectSession given)
             (snd (snd (event_handler manager current ev)))) \<le> 1"
    by (cases ev) (auto simp: event_handler_def split: option.splits)
  have f: "truthy_str given"
    if "DisconnectSession given \<in> set (snd (snd (event_handler manager current ev)))" for given
    using that by (cases ev) (auto simp: event_handler_def split: option.splits if_splits)
  from a b c d f show ?thesis by blast
qed

theorem session_end_disconnects_tracked_session_witness:
  "event_handler quiet_manager (Some ''ses_1'') (SessionDeleted ''ses_1'') =
     (None, None, [DisconnectSession (Some ''ses_1''), AssignSessionID None])
   \<and> event_handler (quiet_manager\<lparr>disconnectSession := (\<lambda>session. Some (Error ''close failed''))\<rparr>)
       (Some ''ses_1'') (SessionDeleted ''ses_1'') =
     (Some (Error ''close failed''), Some ''ses_1'', [DisconnectSession (Some ''ses_1'')])
   \<and> event_handler quiet_manager (Some []) (SessionDeleted ''ses_1'') = (None, Some [], [])
   \<and> truthy_str (Some ''ses_1'')"
proof -
  let ?closing = "quiet_manager\<lparr>disconnectSession := (\<lambda>session. Some (Error ''close failed''))\<rparr>"
  have h: "''ses_1'' \<noteq> [] \<and> disconnectSession quiet_manager (Some ''ses_1'') = None"
    by (simp add: quiet_manager_def)
  have r: "''ses_1'' \<noteq> [] \<and>
           disconnectSession ?closing (Some ''ses_1'') = Some (Error ''close failed'')"
    by simp
  have u: "\<not> truthy_str (Some [])" by simp
  note t = session_end_disconnects_tracked_session
    [of "''ses_1''" quiet_manager "Error ''close failed''" "Some []" "SessionDeleted ''ses_1''"]
  note t' = session_end_disconnects_tracked_session
    [of "''ses_1''" ?closing "Error ''close failed''" "Some ''ses_1''" "SessionDeleted ''ses_1''"]
  have first: "event_handler quiet_manager (Some ''ses_1'') (SessionDeleted ''ses_1'') =
     (None, None, [DisconnectSession (Some ''ses_1''), AssignSessionID None])"
    using t [THEN conjunct1, THEN mp, OF h] .
  have second: "event_handler ?closing (Some ''ses_1'') (SessionDeleted ''ses_1'') =
     (Some (Error ''close failed''), Some ''ses_1'', [DisconnectSession (Some ''ses_1'')])"
    using t' [THEN conjunct2, THEN conjunct1, THEN mp, OF r] .
  have third: "event_handler quiet_manager (Some []) (SessionDeleted ''ses_1'') =
     (None, Some [], [])"
    using t [THEN conjunct2, THEN conjunct2, THEN conjunct1, THEN mp, OF u] .
  have "DisconnectSession (Some ''ses_1'') \<in>
          set (snd (snd (event_handler ?closing (Some ''ses_1'') (SessionDeleted ''ses_1''))))"
    by (simp add: second)
  then have fourth: "truthy_str (Some ''ses_1'')"
    using t' [THEN conjunct2, THEN conjunct2, THEN conjunct2, THEN conjunct2, THEN spec, THEN mp]
    by blast
  from first second third fourth show ?thesis by (intro conjI)
qed

subsection \<open>Listing a skill's servers\<close>

lemma push_servers_concat:
  "push_servers lib manager skill session sections entries =
     sections @ concat (map (server_sections lib manager skill session) entries)"
  by (induction entries arbitrary: sections) simp_all

lemma discover_listResources_throws:
  assumes "\<forall>e'. listTools manager info ctx \<noteq> Throws e'"
    and "listResources manager info ctx = Throws e"
  shows "discover manager info ctx = Inl e"
  using assms by (cases "listTools manager info ctx") (simp_all add: discover_def)

lemma discover_listPrompts_throws:
  assumes "\<forall>e'. listTools manager info ctx \<noteq> Throws e'"
    and "\<forall>e'. listResources manager info ctx \<noteq> Throws e'"
    and "listPrompts manager info ctx = Throws e"
  shows "discover manager info ctx = Inl e"
  using assms
  by (cases "listTools manager info ctx"; cases "listResources manager info ctx")
     (simp_all add: discover_def)

text \<open>
  C5, as stated, fails: a server whose \<^verbatim>\<open>listTools\<close> rejects while its resources are
  listed is rendered with no failure note; its block is the one of a server that answers
  with an empty tool list.
\<close>

theorem rejected_discovery_counterexample:
  "listTools resources_only_manager (ClientInfo ''memory'' ''notes'' ''ses_1'')
      (ClientContext (OwnValue (JObj [(''command'', JStr ''memory-mcp'')])) ''notes'') =
     Rejects (Error ''Method not found'')
   \<and> formatMcpCapabilities plain_library resources_only_manager notes_skill ''ses_1'' =
     Some (join nl
       ['''', ''## Available MCP Servers'', '''',
        ''### memory'', '''',
        ''**Resources**: memory://notes'',
        '''', usage_line ''memory'', ''''])
   \<and> formatMcpCapabilities plain_library resources_only_manager notes_skill ''ses_1'' =
     formatMcpCapabilities plain_library resources_no_tools_manager notes_skill ''ses_1''"
proof -
  have a: "listTools resources_only_manager (ClientInfo ''memory'' ''notes'' ''ses_1'')
      (ClientContext (OwnValue (JObj [(''command'', JStr ''memory-mcp'')])) ''notes'') =
     Rejects (Error ''Method not found'')"
    by (simp add: resources_only_manager_def quiet_manager_def)
  have s1: "server_sections plain_library resources_only_manager notes_skill ''ses_1''
              (''memory'', JObj [(''command'', JStr ''memory-mcp'')]) =
            [''### memory'', '''', ''**Resources**: memory://notes'',
             '''', usage_line ''memory'', '''']"
    by (simp add: server_sections_def discover_def capability_lines_def
        resources_only_manager_def quiet_manager_def notes_skill_def)
  have s2: "server_sections plain_library resources_no_tools_manager notes_skill ''ses_1''
              (''memory'', JObj [(''command'', JStr ''memory-mcp'')]) =
            [''### memory'', '''', ''**Resources**: memory://notes'',
             '''', usage_line ''memory'', '''']"
    by (simp add: server_sections_def discover_def capability_lines_def
        resources_no_tools_manager_def quiet_manager_def notes_skill_def)
  have c: "mcpConfig notes_skill = Some [(''memory'', JObj [(''command'', JStr ''memory-mcp'')])]"
    by (simp add: notes_skill_def)
  have f1: "formatMcpCapabilities plain_library resources_only_manager notes_skill ''ses_1'' =
     Some (join nl
       ['''', ''## Available MCP Servers'', '''',
        ''### memory'', '''',
        ''**Resources**: memory://notes'',
        '''', usage_line ''memory'', ''''])"
    by (simp add: formatMcpCapabilities_def c push_servers_concat s1)
  have f2: "formatMcpCapabilities plain_library resources_no_tools_manager notes_skill ''ses_1'' =
     Some (join nl
       ['''', ''## Available MCP Servers'', '''',
        ''### memory'', '''',
        ''**Resources**: memory://notes'',
        '''', usage_line ''memory'', ''''])"
    by (simp add: formatMcpCapabilities_def c push_servers_concat s2)
  from a f1 f2 show ?thesis by simp
qed

text \<open>
  When all three discovery calls of a server reject, its block says that no capabilities
  were discovered.
\<close>

lemma all_rejected_no_capabilities:
  assumes "listTools manager (ClientInfo server (name skill) session)
             (ClientContext (OwnValue cfg) (name skill)) = Rejects e1"
    and "listResources manager (ClientInfo server (name skill) session)
             (ClientContext (OwnValue cfg) (name skill)) = Rejects e2"
    and "listPrompts manager (ClientInfo server (name skill) session)
             (ClientContext (OwnValue cfg) (name skill)) = Rejects e3"
  shows "server_sections lib manager skill session (server, cfg) =
           [''### '' @ server, '''', ''*No capabilities discovered*'', '''',
            usage_line server, '''']"
  using assms by (simp add: server_sections_def discover_def capability_lines_def)

text \<open>
  C5, amended. For a skill that declares servers the listing is always produced, whatever
  the discovery calls of any server do: the heading followed by the block of every declared
  server, in order; the block of a server is its heading, what discovery gave, and its
  usage line. The first of the calls \<^verbatim>\<open>listTools\<close>, \<^verbatim>\<open>listResources\<close>,
  \<^verbatim>\<open>listPrompts\<close> that throws makes the block of its server the heading, the note
  \<^verbatim>\<open>*Failed to connect: ...*\<close> with the first line of that error, and the usage line.
  A \<^verbatim>\<open>listTools\<close> call that rejects while the resources and prompts are listed counts
  as an empty tool list: the block shows the resources and prompts and no failure note.
\<close>

theorem listing_survives_discovery_failure:
  assumes "mcpConfig skill = Some servers" and "servers \<noteq> []"
  shows "formatMcpCapabilities lib manager skill session =
           Some (join nl (['''', ''## Available MCP Servers'', ''''] @
             concat (map (server_sections lib manager skill session) servers)))
   \<and> (\<forall>(server, cfg) \<in> set servers. \<forall>e.
         listTools manager (ClientInfo server (name skill) session)
           (ClientContext (OwnValue cfg) (name skill)) = Throws e \<longrightarrow>
         server_sections lib manager skill session (server, cfg) =
           [''### '' @ server, '''', failure_note e, '''', usage_line server, ''''])
   \<and> (\<forall>(server, cfg) \<in> set servers. \<forall>e.
         (\<forall>e'. listTools manager (ClientInfo server (name skill) session)
           (ClientContext (OwnValue cfg) (name skill)) \<noteq> Throws e') \<and>
         listResources manager (ClientInfo server (name skill) session)
           (ClientContext (OwnValue cfg) (name skill)) = Throws e \<longrightarrow>
         server_sections lib manager skill session (server, cfg) =
           [''### '' @ server, '''', failure_note e, '''', usage_line server, ''''])
   \<and> (\<forall>(server, cfg) \<in> set servers. \<forall>e.
         (\<forall>e'. listTools manager (ClientInfo server (name skill) session)
           (ClientContext (OwnValue cfg) (name skill)) \<noteq> Throws e') \<and>
         (\<forall>e'. listResources manager (ClientInfo server (name skill) session)
           (ClientContext (OwnValue cfg) (name skill)) \<noteq> Throws e') \<and>
         listPrompts manager (ClientInfo server (name skill) session)
           (ClientContext (OwnValue cfg) (name skill)) = Throws e \<longrightarrow>
         server_sections lib manager skill session (server, cfg) =
           [''### '' @ server, '''', failure_note e, '''', usage_line server, ''''])
   \<and> (\<forall>(server, cfg) \<in> set servers. \<forall>e resources prompts.
         listTools manager (ClientInfo server (name skill) session)
           (ClientContext (OwnValue cfg) (name skill)) = Rejects e \<and>
         listResources manager (ClientInfo server (name skill) session)
           (ClientContext (OwnValue cfg) (name skill)) = Resolves resources \<and>
         listPrompts manager (ClientInfo server (name skill) session)
           (ClientContext (OwnValue cfg) (name skill)) = Resolves prompts \<longrightarrow>
         server_sections lib manager skill session (server, cfg) =
           [''### '' @ server, ''''] @ capability_lines lib [] resources prompts @
           ['''', usage_line server, ''''])
   \<and> (\<forall>(server, cfg) \<in> set servers. \<exists>body.
         server_sections lib manager skill session (server, cfg) =
           [''### '' @ server, ''''] @ body @ ['''', usage_line server, ''''])"
proof -
  have a: "formatMcpCapabilities lib manager skill session =
           Some (join nl (['''', ''## Available MCP Servers'', ''''] @
             concat (map (server_sections lib manager skill session) servers)))"
    using assms by (simp add: formatMcpCapabilities_def push_servers_concat)
  have b1: "server_sections lib manager skill session (server, cfg) =
           [''### '' @ server, '''', failure_note e, '''', usage_line server, '''']"
    if "listTools manager (ClientInfo server (name skill) session)
           (ClientContext (OwnValue cfg) (name skill)) = Throws e" for server cfg e
    using that by (simp add: server_sections_def discover_def)
  have b2: "server_sections lib manager skill session (server, cfg) =
           [''### '' @ server, '''', failure_note e, '''', usage_line server, '''']"
    if "\<forall>e'. listTools manager (ClientInfo server (name skill) session)
           (ClientContext (OwnValue cfg) (name skill)) \<noteq> Throws e'"
       "listResources manager (ClientInfo server (name skill) session)
           (ClientContext (OwnValue cfg) (name skill)) = Throws e" for server cfg e
    using discover_listResources_throws [OF that] by (simp add: server_sections_def)
  have b3: "server_sections lib manager skill session (server, cfg) =
           [''### '' @ server, '''', failure_note e, '''', usage_line server, '''']"
    if "\<forall>e'. listTools manager (ClientInfo server (name skill) session)
           (ClientContext (OwnValue cfg) (name skill)) \<noteq> Throws e'"
       "\<forall>e'. listResources manager (ClientInfo server (name skill) session)
           (ClientContext (OwnValue cfg) (name skill)) \<noteq> Throws e'"
       "listPrompts manager (ClientInfo server (name skill) session)
           (ClientContext (OwnValue cfg) (name skill)) = Throws e" for server cfg e
    using discover_listPrompts_throws [OF that] by (simp add: server_sections_def)
  have c: "server_sections lib manager skill session (server, cfg) =
           [''### '' @ server, ''''] @ capability_lines lib [] resources prompts @
           ['''', usage_line server, '''']"
    if "listTools manager (ClientInfo server (name skill) session)
           (ClientContext (OwnValue cfg) (name skill)) = Rejects e"
       "listResources manager (ClientInfo server (name skill) session)
           (ClientContext (OwnValue cfg) (name skill)) = Resolves resources"
       "listPrompts manager (ClientInfo server (name skill) session)
           (ClientContext (OwnValue cfg) (name skill)) = Resolves prompts"
    for server cfg e resources prompts
    using that by (simp add: server_sections_def discover_def)
  have b1': "\<forall>(server, cfg) \<in> set servers. \<forall>e.
         listTools manager (ClientInfo server (name skill) session)
           (ClientContext (OwnValue cfg) (name skill)) = Throws e \<longrightarrow>
         server_sections lib manager skill session (server, cfg) =
           [''### '' @ server, '''', failure_note e, '''', usage_line server, '''']"
    using b1 by blast
  have b2': "\<forall>(server, cfg) \<in> set servers. \<forall>e.
         (\<forall>e'. listTools manager (ClientInfo server (name skill) session)
           (ClientContext (OwnValue cfg) (name skill)) \<noteq> Throws e') \<and>
         listResources manager (ClientInfo server (name skill) session)
           (ClientContext (OwnValue cfg) (name skill)) = Throws e \<longrightarrow>
         server_sections lib manager skill session (server, cfg) =
           [''### '' @ server, '''', failure_note e, '''', usage_line server, '''']"
    using b2 by blast
  have b3': "\<forall>(server, cfg) \<in> set servers. \<forall>e.
         (\<forall>e'. listTools manager (ClientInfo server (name skill) session)
           (ClientContext (OwnValue cfg) (name skill)) \<noteq> Throws e') \<and>
         (\<forall>e'. listResources manager (ClientInfo server (name skill) session)
           (ClientContext (OwnValue cfg) (name skill)) \<noteq> Throws e') \<and>
         listPrompts manager (ClientInfo server (name skill) session)
           (ClientContext (OwnValue cfg) (name skill)) = Throws e \<longrightarrow>
         server_sections lib manager skill session (server, cfg) =
           [''### '' @ server, '''', failure_note e, '''', usage_line server, '''']"
    using b3 by blast
  have c': "\<forall>(server, cfg) \<in> set servers. \<forall>e resources prompts.
         listTools manager (ClientInfo server (name skill) session)
           (ClientContext (OwnValue cfg) (name skill)) = Rejects e \<and>
         listResources manager (ClientInfo server (name skill) session)
           (ClientContext (OwnValue cfg) (name skill)) = Resolves resources \<and>
         listPrompts manager (ClientInfo server (name skill) session)
           (ClientContext (OwnValue cfg) (name skill)) = Resolves prompts \<longrightarrow>
         server_sections lib manager skill session (server, cfg) =
           [''### '' @ server, ''''] @ capability_lines lib [] resources prompts @
           ['''', usage_line server, '''']"
    using c by blast
  have d: "\<exists>body. server_sections lib manager skill session (server, cfg) =
           [''### '' @ server, ''''] @ body @ ['''', usage_line server, '''']" for server cfg
    by (simp add: server_sections_def Let_def)
  then have d': "\<forall>(server, cfg) \<in> set servers. \<exists>body.
         server_sections lib manager skill session (server, cfg) =
           [''### '' @ server, ''''] @ body @ ['''', usage_line server, '''']"
    by blast
  from a b1' b2' b3' c' d' show ?thesis by (intro conjI)
qed

theorem listing_survives_discovery_failure_witness:
  "formatMcpCapabilities plain_library failing_manager ops_skill ''ses_1'' =
     Some (join nl
       ['''', ''## Available MCP Servers'', '''',
        ''### broken'', '''', ''*Failed to connect: spawn ENOENT*'', '''',
        usage_line ''broken'', '''',
        ''### stalled'', '''', ''*Failed to connect: write EPIPE*'', '''',
        usage_line ''stalled'', '''',
        ''### closed'', '''', ''*Failed to connect: stream closed*'', '''',
        usage_line ''closed'', '''',
        ''### memory'', '''', ''**Resources**: memory://notes'', '''',
        usage_line ''memory'', ''''])"
proof -
  let ?broken = "(''broken'', JObj [(''command'', JStr ''no-such-binary'')])"
  let ?stalled = "(''stalled'', JObj [(''command'', JStr ''stalled-mcp'')])"
  let ?closed = "(''closed'', JObj [(''command'', JStr ''closed-mcp'')])"
  let ?memory = "(''memory'', JObj [(''command'', JStr ''memory-mcp'')])"
  have c: "mcpConfig ops_skill = Some [?broken, ?stalled, ?closed, ?memory]"
    by (simp add: ops_skill_def)
  have ne: "[?broken, ?stalled, ?closed, ?memory] \<noteq> []" by simp
  have n: "name ops_skill = ''ops''"
    by (simp add: ops_skill_def)
  note t = listing_survives_discovery_failure
    [of ops_skill "[?broken, ?stalled, ?closed, ?memory]" plain_library failing_manager
        "''ses_1''", OF c ne]
  have tools_throws: "listTools failing_manager (ClientInfo ''broken'' ''ops'' ''ses_1'')
      (ClientContext (OwnValue (JObj [(''command'', JStr ''no-such-binary'')])) ''ops'') =
     Throws (Error (''spawn ENOENT'' @ nl @ ''    at spawn''))"
    by (simp add: failing_manager_def)
  have resources_throws:
    "(\<forall>e'. listTools failing_manager (ClientInfo ''stalled'' ''ops'' ''ses_1'')
      (ClientContext (OwnValue (JObj [(''command'', JStr ''stalled-mcp'')])) ''ops'') \<noteq> Throws e')
     \<and> listResources failing_manager (ClientInfo ''stalled'' ''ops'' ''ses_1'')
      (ClientContext (OwnValue (JObj [(''command'', JStr ''stalled-mcp'')])) ''ops'') =
       Throws (Error ''write EPIPE'')"
    by (simp add: failing_manager_def)
  have prompts_throws:
    "(\<forall>e'. listTools failing_manager (ClientInfo ''closed'' ''ops'' ''ses_1'')
      (ClientContext (OwnValue (JObj [(''command'', JStr ''closed-mcp'')])) ''ops'') \<noteq> Throws e')
     \<and> (\<forall>e'. listResources failing_manager (ClientInfo ''closed'' ''ops'' ''ses_1'')
      (ClientContext (OwnValue (JObj [(''command'', JStr ''closed-mcp'')])) ''ops'') \<noteq> Throws e')
     \<and> listPrompts failing_manager (ClientInfo ''closed'' ''ops'' ''ses_1'')
      (ClientContext (OwnValue (JObj [(''command'', JStr ''closed-mcp'')])) ''ops'') =
       Throws (Error ''stream closed'')"
    by (simp add: failing_manager_def)
  have rejects: "listTools failing_manager (ClientInfo ''memory'' ''ops'' ''ses_1'')
      (ClientContext (OwnValue (JObj [(''command'', JStr ''memory-mcp'')])) ''ops'') =
       Rejects (Error ''Method not found'')
     \<and> listResources failing_manager (ClientInfo ''memory'' ''ops'' ''ses_1'')
      (ClientContext (OwnValue (JObj [(''command'', JStr ''memory-mcp'')])) ''ops'') =
       Resolves [McpResource ''memory://notes'']
     \<and> listPrompts failing_manager (ClientInfo ''memory'' ''ops'' ''ses_1'')
      (ClientContext (OwnValue (JObj [(''command'', JStr ''memory-mcp'')])) ''ops'') =
       Resolves []"
    by (simp add: failing_manager_def)
  have note_text: "failure_note (Error (''spawn ENOENT'' @ nl @ ''    at spawn'')) =
      ''*Failed to connect: spawn ENOENT*''"
    "failure_note (Error ''write EPIPE'') = ''*Failed to connect: write EPIPE*''"
    "failure_note (Error ''stream closed'') = ''*Failed to connect: stream closed*''"
    by (simp_all add: failure_note_def first_line_def)
  have lines: "capability_lines plain_library [] [McpResource ''memory://notes''] [] =
      [''**Resources**: memory://notes'']"
    by (simp add: capability_lines_def)
  have b1: "server_sections plain_library failing_manager ops_skill ''ses_1'' ?broken =
      [''### broken'', '''', ''*Failed to connect: spawn ENOENT*'', '''',
       usage_line ''broken'', '''']"
    using t [THEN conjunct2, THEN conjunct1, THEN bspec, where x = ?broken]
      tools_throws note_text(1)
    by (simp add: n)
  have b2: "server_sections plain_library failing_manager ops_skill ''ses_1'' ?stalled =
      [''### stalled'', '''', ''*Failed to connect: write EPIPE*'', '''',
       usage_line ''stalled'', '''']"
    using t [THEN conjunct2, THEN conjunct2, THEN conjunct1, THEN bspec, where x = ?stalled]
      resources_throws note_text(2)
    by (simp add: n)
  have b3: "server_sections plain_library failing_manager ops_skill ''ses_1'' ?closed =
      [''### closed'', '''', ''*Failed to connect: stream closed*'', '''',
       usage_line ''closed'', '''']"
    using t [THEN conjunct2, THEN conjunct2, THEN conjunct2, THEN conjunct1, THEN bspec,
             where x = ?closed]
      prompts_throws note_text(3)
    by (simp add: n)
  have b4: "server_sections plain_library failing_manager ops_skill ''ses_1'' ?memory =
      [''### memory'', '''', ''**Resources**: memory://notes'', '''',
       usage_line ''memory'', '''']"
    using t [THEN conjunct2, THEN conjunct2, THEN conjunct2, THEN conjunct2, THEN conjunct1,
             THEN bspec, where x = ?memory]
      rejects lines
    by (simp add: n)
  show ?thesis
    using t [THEN conjunct1] by (simp add: b1 b2 b3 b4)
qed

subsection \<open>The sibling configuration file\<close>

lemma truthy_js_prop_key:
  "truthy (js_prop (JObj kvs) k) \<Longrightarrow> k \<in> fst ` set kvs"
  by (auto split: option.splits dest: map_of_SomeD simp: rev_image_eqI)

lemma has_key_truthy:
  "(has_key k (JObj kvs) \<and> truthy (js_prop (JObj kvs) k)) = truthy (js_prop (JObj kvs) k)"
  using truthy_js_prop_key [of kvs k] by (auto simp: js_in_def)

lemma has_key_own:
  "k \<notin> set Object_prototype_keys \<Longrightarrow> has_key k (JObj kvs) = (k \<in> fst ` set kvs)"
  by (simp add: js_in_def)

lemma file_keys_not_inherited:
  "''mcpServers'' \<notin> set Object_prototype_keys"
  "''mcp'' \<notin> set Object_prototype_keys"
  "''command'' \<notin> set Object_prototype_keys"
  by (simp_all add: Object_prototype_keys_def)

lemma hasCommandField_object:
  "hasCommandField (JObj kvs) =
     (\<exists>v \<in> snd ` set kvs. \<exists>fields. v = JObj fields \<and> ''command'' \<in> fst ` set fields)"
proof -
  have "(truthy v \<and> typeof v = ''object'' \<and> has_key ''command'' v) =
        (\<exists>fields. v = JObj fields \<and> ''command'' \<in> fst ` set fields)" for v
    by (cases v) (simp_all add: js_in_def file_keys_not_inherited)
  then show ?thesis
    by (simp add: hasCommandField_def list_ex_iff)
qed

lemma loadMcpJsonFromDir_object:
  assumes "readFile env (path_join env dir ''mcp.json'') = Some c"
    and "json_parse env c = Some (JObj kvs)"
  shows "loadMcpJsonFromDir env dir =
     (if truthy (js_prop (JObj kvs) ''mcpServers'') then js_prop (JObj kvs) ''mcpServers''
      else if truthy (js_prop (JObj kvs) ''mcp'') then js_prop (JObj kvs) ''mcp''
      else if ''mcpServers'' \<notin> fst ` set kvs \<and> ''mcp'' \<notin> fst ` set kvs \<and>
              (\<exists>v \<in> snd ` set kvs. \<exists>fields. v = JObj fields \<and> ''command'' \<in> fst ` set fields)
           then JObj kvs else JUndefined)"
proof -
  have "loadMcpJsonFromDir env dir =
     (if has_key ''mcpServers'' (JObj kvs) \<and> truthy (js_prop (JObj kvs) ''mcpServers'')
      then js_prop (JObj kvs) ''mcpServers''
      else if has_key ''mcp'' (JObj kvs) \<and> truthy (js_prop (JObj kvs) ''mcp'')
      then js_prop (JObj kvs) ''mcp''
      else if \<not> has_key ''mcpServers'' (JObj kvs) \<and> \<not> has_key ''mcp'' (JObj kvs)
      then (if hasCommandField (JObj kvs) then JObj kvs else JUndefined)
      else JUndefined)"
    using assms by (simp add: loadMcpJsonFromDir_def del: has_key.simps js_prop.simps)
  then have step: "loadMcpJsonFromDir env dir =
     (if truthy (js_prop (JObj kvs) ''mcpServers'') then js_prop (JObj kvs) ''mcpServers''
      else if truthy (js_prop (JObj kvs) ''mcp'') then js_prop (JObj kvs) ''mcp''
      else if \<not> has_key ''mcpServers'' (JObj kvs) \<and> \<not> has_key ''mcp'' (JObj kvs)
      then (if hasCommandField (JObj kvs) then JObj kvs else JUndefined)
      else JUndefined)"
    by (simp only: has_key_truthy)
  have nest: "(if a then (if b then x else y) else y) = (if a \<and> b then x else y)"
    for a b and x y :: js
    by simp
  show ?thesis
    unfolding step hasCommandField_object nest
      has_key_own [OF file_keys_not_inherited(1)] has_key_own [OF file_keys_not_inherited(2)]
    by (simp only: conj_assoc)
qed

lemma loadMcpJsonFromDir_truthy:
  "loadMcpJsonFromDir env dir = JUndefined \<or> truthy (loadMcpJsonFromDir env dir)"
  by (simp add: loadMcpJsonFromDir_def del: has_key.simps js_prop.simps
      split: option.splits)

text \<open>
  C6, as stated, fails: a bare mapping in which one value has a \<^verbatim>\<open>command\<close> field and
  another (a \<^verbatim>\<open>$schema\<close> entry) has none is not one of the three shapes, and it is
  recognized all the same, as the configuration.
\<close>

theorem bare_mapping_counterexample:
  "json_parse (skill_dir_env bare_json) ''(mcp.json)'' = Some bare_json
   \<and> \<not> spec_mcp_json_shape bare_json
   \<and> loadMcpJsonFromDir (skill_dir_env bare_json) ''/skills/db'' = bare_json
   \<and> bare_json \<noteq> JUndefined"
proof -
  have a: "json_parse (skill_dir_env bare_json) ''(mcp.json)'' = Some bare_json"
    by (simp add: skill_dir_env_def)
  have r: "readFile (skill_dir_env bare_json)
             (path_join (skill_dir_env bare_json) ''/skills/db'' ''mcp.json'') = Some ''(mcp.json)''"
    by (simp add: skill_dir_env_def)
  have b: "\<not> spec_mcp_json_shape bare_json"
    by (simp add: spec_mcp_json_shape_def bare_json_def)
  have p: "json_parse (skill_dir_env bare_json) ''(mcp.json)'' =
             Some (JObj [(''sqlite'', JObj [(''command'', JStr ''sqlite-mcp'')]),
                         (''$schema'', JStr ''https://example.com/mcp.schema.json'')])"
    by (simp add: skill_dir_env_def bare_json_def)
  have c: "loadMcpJsonFromDir (skill_dir_env bare_json) ''/skills/db'' = bare_json"
    unfolding loadMcpJsonFromDir_object [OF r p]
    by (simp add: bare_json_def)
  have d: "bare_json \<noteq> JUndefined" by (simp add: bare_json_def)
  from a b c d show ?thesis by simp
qed

text \<open>
  A skill whose description cannot be rendered (the coercion throws) is not loaded.
\<close>

lemma unrenderable_description_not_loaded:
  assumes "readFile env skillPath = Some content"
    and "String_throws
           (js_or (js_prop (parseFrontmatter_data (yaml_load env) content) ''description'')
              (JStr []))"
  shows "loadSkillFromPath env skillPath resolvedPath defaultName scope = None"
  using assms by (simp add: loadSkillFromPath_def Let_def js_ToString_def)

text \<open>
  C6, amended. A sibling \<^verbatim>\<open>mcp.json\<close> that cannot be read or parsed yields no
  configuration. One that parses to an object yields: the value under \<^verbatim>\<open>mcpServers\<close>
  when that value is truthy; else the value under \<^verbatim>\<open>mcp\<close> when that is truthy; else
  the object itself when it has neither key and at least one of its values is an object
  with a \<^verbatim>\<open>command\<close> field; else none. Every skill that is loaded has the sibling
  file's configuration whenever the sibling file yields one, and the front matter's
  configuration only when it yields none; and a skill is loaded when its file can be read
  and its description can be rendered.
\<close>

theorem sibling_file_shapes_and_priority:
  "(readFile env (path_join env dir ''mcp.json'') = None \<longrightarrow>
            loadMcpJsonFromDir env dir = JUndefined)
   \<and> (\<forall>c. readFile env (path_join env dir ''mcp.json'') = Some c \<and> json_parse env c = None
         \<longrightarrow> loadMcpJsonFromDir env dir = JUndefined)
   \<and> (\<forall>c kvs. readFile env (path_join env dir ''mcp.json'') = Some c \<and>
         json_parse env c = Some (JObj kvs) \<longrightarrow>
         loadMcpJsonFromDir env dir =
           (if truthy (js_prop (JObj kvs) ''mcpServers'') then js_prop (JObj kvs) ''mcpServers''
            else if truthy (js_prop (JObj kvs) ''mcp'') then js_prop (JObj kvs) ''mcp''
            else if ''mcpServers'' \<notin> fst ` set kvs \<and> ''mcp'' \<notin> fst ` set kvs \<and>
                    (\<exists>v \<in> snd ` set kvs. \<exists>fields. v = JObj fields \<and>
                        ''command'' \<in> fst ` set fields)
                 then JObj kvs else JUndefined))
   \<and> (\<forall>skill content.
         readFile env skillPath = Some content \<and>
         loadSkillFromPath env skillPath resolvedPath defaultName scope = Some skill \<longrightarrow>
         ls_mcpConfig skill =
           (if loadMcpJsonFromDir env resolvedPath \<noteq> JUndefined
            then loadMcpJsonFromDir env resolvedPath
            else parseSkillMcpConfigFromFrontmatter (yaml_load env) content))
   \<and> (\<forall>content.
         readFile env skillPath = Some content \<and>
         \<not> String_throws
             (js_or (js_prop (parseFrontmatter_data (yaml_load env) content) ''description'')
                (JStr [])) \<longrightarrow>
         (\<exists>skill. loadSkillFromPath env skillPath resolvedPath defaultName scope = Some skill))"
proof -
  have a: "loadMcpJsonFromDir env dir = JUndefined"
    if "readFile env (path_join env dir ''mcp.json'') = None"
    using that by (simp add: loadMcpJsonFromDir_def)
  have b: "loadMcpJsonFromDir env dir = JUndefined"
    if "readFile env (path_join env dir ''mcp.json'') = Some c" "json_parse env c = None" for c
    using that by (simp add: loadMcpJsonFromDir_def)
  have either: "js_or (loadMcpJsonFromDir env resolvedPath) other =
          (if loadMcpJsonFromDir env resolvedPath \<noteq> JUndefined
           then loadMcpJsonFromDir env resolvedPath else other)" for other
    using loadMcpJsonFromDir_truthy [of env resolvedPath] by (auto simp: js_or_def)
  have d: "ls_mcpConfig skill =
           (if loadMcpJsonFromDir env resolvedPath \<noteq> JUndefined
            then loadMcpJsonFromDir env resolvedPath
            else parseSkillMcpConfigFromFrontmatter (yaml_load env) content)"
    if "readFile env skillPath = Some content"
       "loadSkillFromPath env skillPath resolvedPath defaultName scope = Some skill"
    for skill content
    using that by (auto simp: loadSkillFromPath_def Let_def either split: sum.splits)
  have e: "\<exists>skill. loadSkillFromPath env skillPath resolvedPath defaultName scope = Some skill"
    if "readFile env skillPath = Some content"
       "\<not> String_throws
           (js_or (js_prop (parseFrontmatter_data (yaml_load env) content) ''description'')
              (JStr []))"
    for content
    using that by (simp add: loadSkillFromPath_def Let_def js_ToString_def)
  from a b loadMcpJsonFromDir_object [of env dir] d e show ?thesis by blast
qed

theorem sibling_file_shapes_and_priority_witness:
  "loadMcpJsonFromDir (skill_dir_env servers_json) ''/skills/db'' =
     JObj [(''sqlite'', JObj [(''command'', JStr ''sqlite-mcp'')])]
   \<and> parseSkillMcpConfigFromFrontmatter (yaml_load (skill_dir_env servers_json)) skill_md =
     JObj [(''from-frontmatter'', JObj [(''command'', JStr ''fm-mcp'')])]
   \<and> (\<exists>skill. loadSkillFromPath (skill_dir_env servers_json) ''/skills/db/SKILL.md''
                 ''/skills/db'' ''db'' ''opencode-project'' = Some skill \<and>
         ls_mcpConfig skill = JObj [(''sqlite'', JObj [(''command'', JStr ''sqlite-mcp'')])])
   \<and> loadMcpJsonFromDir (skill_dir_env servers_json) ''/skills/other'' = JUndefined
   \<and> loadMcpJsonFromDir ((skill_dir_env servers_json)\<lparr>json_parse := (\<lambda>text. None)\<rparr>)
         ''/skills/db'' = JUndefined"
proof -
  let ?env = "skill_dir_env servers_json"
  let ?broken = "(skill_dir_env servers_json)\<lparr>json_parse := (\<lambda>text. None)\<rparr>"
  have r: "readFile ?env ''/skills/db/SKILL.md'' = Some skill_md"
    by (simp add: skill_dir_env_def)
  have j: "readFile ?env (path_join ?env ''/skills/db'' ''mcp.json'') = Some ''(mcp.json)'' \<and>
           json_parse ?env ''(mcp.json)'' =
             Some (JObj [(''mcpServers'', JObj [(''sqlite'', JObj [(''command'', JStr ''sqlite-mcp'')])])])"
    by (simp add: skill_dir_env_def servers_json_def)
  have missing: "readFile ?env (path_join ?env ''/skills/other'' ''mcp.json'') = None"
    by (simp add: skill_dir_env_def)
  have unparsed: "readFile ?broken (path_join ?broken ''/skills/db'' ''mcp.json'') =
             Some ''(mcp.json)'' \<and> json_parse ?broken ''(mcp.json)'' = None"
    by (simp add: skill_dir_env_def)
  note t = sibling_file_shapes_and_priority
    [of ?env "''/skills/db''" "''/skills/db/SKILL.md''" "''/skills/db''" "''db''"
        "''opencode-project''"]
  note other = sibling_file_shapes_and_priority
    [of ?env "''/skills/other''" "''/skills/db/SKILL.md''" "''/skills/db''" "''db''"
        "''opencode-project''"]
  note broken = sibling_file_shapes_and_priority
    [of ?broken "''/skills/db''" "''/skills/db/SKILL.md''" "''/skills/db''" "''db''"
        "''opencode-project''"]
  have sibling: "loadMcpJsonFromDir ?env ''/skills/db'' =
     JObj [(''sqlite'', JObj [(''command'', JStr ''sqlite-mcp'')])]"
    using t [THEN conjunct2, THEN conjunct2, THEN conjunct1, THEN spec, THEN spec, THEN mp, OF j]
    by simp
  have m: "frontmatterMatch skill_md =
      Some (''name: db'' @ nl @ ''mcp: {from-frontmatter: {command: fm-mcp}}'',
            nl @ ''Query the database.'')"
    by code_simp
  have fm: "parseSkillMcpConfigFromFrontmatter (yaml_load ?env) skill_md =
     JObj [(''from-frontmatter'', JObj [(''command'', JStr ''fm-mcp'')])]"
    by (simp add: parseSkillMcpConfigFromFrontmatter_def m skill_dir_env_def
        frontmatter_value_def js_in_def)
  have data: "parseFrontmatter_data (yaml_load ?env) skill_md = frontmatter_value"
    by (simp add: parseFrontmatter_data_def m skill_dir_env_def js_or_def frontmatter_value_def)
  have renders: "readFile ?env ''/skills/db/SKILL.md'' = Some skill_md \<and>
      \<not> String_throws
          (js_or (js_prop (parseFrontmatter_data (yaml_load ?env) skill_md) ''description'')
             (JStr []))"
    by (simp add: r data frontmatter_value_def js_or_def)
  from t [THEN conjunct2, THEN conjunct2, THEN conjunct2, THEN conjunct2, THEN spec, THEN mp,
          OF renders]
  obtain skill where
    s: "loadSkillFromPath ?env ''/skills/db/SKILL.md'' ''/skills/db'' ''db''
          ''opencode-project'' = Some skill"
    by blast
  have both: "readFile ?env ''/skills/db/SKILL.md'' = Some skill_md \<and>
      loadSkillFromPath ?env ''/skills/db/SKILL.md'' ''/skills/db'' ''db''
          ''opencode-project'' = Some skill"
    using r s by (rule conjI)
  have "ls_mcpConfig skill =
      (if loadMcpJsonFromDir ?env ''/skills/db'' \<noteq> JUndefined
       then loadMcpJsonFromDir ?env ''/skills/db''
       else parseSkillMcpConfigFromFrontmatter (yaml_load ?env) skill_md)"
    using t [THEN conjunct2, THEN conjunct2, THEN conjunct2, THEN conjunct1, THEN spec,
             THEN spec, THEN mp, OF both] .
  then have "ls_mcpConfig skill = JObj [(''sqlite'', JObj [(''command'', JStr ''sqlite-mcp'')])]"
    by (simp add: sibling)
  with s have loaded: "\<exists>skill. loadSkillFromPath ?env ''/skills/db/SKILL.md''
                 ''/skills/db'' ''db'' ''opencode-project'' = Some skill \<and>
         ls_mcpConfig skill = JObj [(''sqlite'', JObj [(''command'', JStr ''sqlite-mcp'')])]"
    by blast
  have none1: "loadMcpJsonFromDir ?env ''/skills/other'' = JUndefined"
    using other [THEN conjunct1, THEN mp, OF missing] .
  have none2: "loadMcpJsonFromDir ?broken ''/skills/db'' = JUndefined"
    using broken [THEN conjunct2, THEN conjunct1, THEN spec, THEN mp, OF unparsed] .
  from sibling fm loaded none1 none2 show ?thesis by (intro conjI)
qed

end
